theory Spec2Isabelle
  imports Main
begin

section \<open>The virtual machine agent of archipelVirtualMachine.py\<close>

text \<open>
  A shallow embedding of \<^verbatim>\<open>TNArchipelVirtualMachine\<close>. The agent object is a record,
  every method is a function that takes the agent and returns the updated agent together
  with what the method returns or raises. The hypervisor driver (libvirt) is a parameter:
  a record that gives, for every driver method the agent calls, the outcome of the call as
  a function of the calls made so far. Every call is appended to \<open>driver_calls\<close>, every
  presence, change notification and hook to \<open>outbox\<close>, every log line to \<open>log\<close>
  (log lines keep the source's format string, without the interpolated values).
\<close>

subsection \<open>Constants\<close>

definition ARCHIPEL_ERROR_CODE_VM_CREATE :: int where
  "ARCHIPEL_ERROR_CODE_VM_CREATE = -1001"
definition ARCHIPEL_ERROR_CODE_VM_SUSPEND :: int where
  "ARCHIPEL_ERROR_CODE_VM_SUSPEND = -1002"
definition ARCHIPEL_ERROR_CODE_VM_RESUME :: int where
  "ARCHIPEL_ERROR_CODE_VM_RESUME = -1003"
definition ARCHIPEL_ERROR_CODE_VM_DESTROY :: int where
  "ARCHIPEL_ERROR_CODE_VM_DESTROY = -1004"
definition ARCHIPEL_ERROR_CODE_VM_SHUTDOWN :: int where
  "ARCHIPEL_ERROR_CODE_VM_SHUTDOWN = -1005"
definition ARCHIPEL_ERROR_CODE_VM_REBOOT :: int where
  "ARCHIPEL_ERROR_CODE_VM_REBOOT = -1006"
definition ARCHIPEL_ERROR_CODE_VM_DEFINE :: int where
  "ARCHIPEL_ERROR_CODE_VM_DEFINE = -1007"
definition ARCHIPEL_ERROR_CODE_VM_UNDEFINE :: int where
  "ARCHIPEL_ERROR_CODE_VM_UNDEFINE = -1008"
definition ARCHIPEL_ERROR_CODE_VM_LOCKED :: int where
  "ARCHIPEL_ERROR_CODE_VM_LOCKED = -1012"
definition ARCHIPEL_ERROR_CODE_VM_AUTOSTART :: int where
  "ARCHIPEL_ERROR_CODE_VM_AUTOSTART = -1015"
definition ARCHIPEL_ERROR_CODE_VM_MEMORY :: int where
  "ARCHIPEL_ERROR_CODE_VM_MEMORY = -1016"

definition ARCHIPEL_XMPP_SHOW_RUNNING :: string where
  "ARCHIPEL_XMPP_SHOW_RUNNING = ''Running''"
definition ARCHIPEL_XMPP_SHOW_PAUSED :: string where
  "ARCHIPEL_XMPP_SHOW_PAUSED = ''Paused''"
definition ARCHIPEL_XMPP_SHOW_SHUTDOWNED :: string where
  "ARCHIPEL_XMPP_SHOW_SHUTDOWNED = ''Off''"
definition ARCHIPEL_XMPP_SHOW_SHUTDOWNING :: string where
  "ARCHIPEL_XMPP_SHOW_SHUTDOWNING = ''Shutdowning...''"
definition ARCHIPEL_XMPP_SHOW_SHUTOFF :: string where
  "ARCHIPEL_XMPP_SHOW_SHUTOFF = ''Shutted off''"
definition ARCHIPEL_XMPP_SHOW_NOT_DEFINED :: string where
  "ARCHIPEL_XMPP_SHOW_NOT_DEFINED = ''Not defined''"
definition ARCHIPEL_XMPP_SHOW_CRASHED :: string where
  "ARCHIPEL_XMPP_SHOW_CRASHED = ''Crashed''"

text \<open>
  The constants of the libvirt binding that the module reads, with the values of libvirt's
  public enumerations \<^verbatim>\<open>virDomainState\<close>, \<^verbatim>\<open>virDomainEventType\<close>, the
  event details and \<^verbatim>\<open>virErrorNumber\<close>.
\<close>

definition VIR_DOMAIN_RUNNING :: int where "VIR_DOMAIN_RUNNING = 1"
definition VIR_DOMAIN_BLOCKED :: int where "VIR_DOMAIN_BLOCKED = 2"
definition VIR_DOMAIN_PAUSED :: int where "VIR_DOMAIN_PAUSED = 3"
definition VIR_DOMAIN_SHUTDOWN :: int where "VIR_DOMAIN_SHUTDOWN = 4"
definition VIR_DOMAIN_SHUTOFF :: int where "VIR_DOMAIN_SHUTOFF = 5"
definition VIR_DOMAIN_CRASHED :: int where "VIR_DOMAIN_CRASHED = 6"

definition VIR_DOMAIN_EVENT_DEFINED :: int where "VIR_DOMAIN_EVENT_DEFINED = 0"
definition VIR_DOMAIN_EVENT_UNDEFINED :: int where "VIR_DOMAIN_EVENT_UNDEFINED = 1"
definition VIR_DOMAIN_EVENT_STARTED :: int where "VIR_DOMAIN_EVENT_STARTED = 2"
definition VIR_DOMAIN_EVENT_SUSPENDED :: int where "VIR_DOMAIN_EVENT_SUSPENDED = 3"
definition VIR_DOMAIN_EVENT_RESUMED :: int where "VIR_DOMAIN_EVENT_RESUMED = 4"
definition VIR_DOMAIN_EVENT_STOPPED :: int where "VIR_DOMAIN_EVENT_STOPPED = 5"

definition VIR_DOMAIN_EVENT_STARTED_BOOTED :: int where "VIR_DOMAIN_EVENT_STARTED_BOOTED = 0"
definition VIR_DOMAIN_EVENT_STARTED_MIGRATED :: int where "VIR_DOMAIN_EVENT_STARTED_MIGRATED = 1"
definition VIR_DOMAIN_EVENT_SUSPENDED_PAUSED :: int where "VIR_DOMAIN_EVENT_SUSPENDED_PAUSED = 0"
definition VIR_DOMAIN_EVENT_SUSPENDED_MIGRATED :: int where "VIR_DOMAIN_EVENT_SUSPENDED_MIGRATED = 1"
definition VIR_DOMAIN_EVENT_RESUMED_UNPAUSED :: int where "VIR_DOMAIN_EVENT_RESUMED_UNPAUSED = 0"
definition VIR_DOMAIN_EVENT_RESUMED_MIGRATED :: int where "VIR_DOMAIN_EVENT_RESUMED_MIGRATED = 1"
definition VIR_DOMAIN_EVENT_STOPPED_SHUTDOWN :: int where "VIR_DOMAIN_EVENT_STOPPED_SHUTDOWN = 0"
definition VIR_DOMAIN_EVENT_STOPPED_DESTROYED :: int where "VIR_DOMAIN_EVENT_STOPPED_DESTROYED = 1"
definition VIR_DOMAIN_EVENT_STOPPED_MIGRATED :: int where "VIR_DOMAIN_EVENT_STOPPED_MIGRATED = 3"

definition VIR_ERR_NO_DOMAIN :: int where "VIR_ERR_NO_DOMAIN = 42"

subsection \<open>Data\<close>

text \<open>
  An XML element of \<^verbatim>\<open>xmpp.simplexml\<close>: its tag, attributes, character data (a list
  of text pieces, as the library stores it) and child elements.
\<close>

datatype node = Node (tag: string) (attrs: "(string \<times> string) list")
  (data: "string list") (kids: "node list")

text \<open>
  The exceptions the module can meet. \<open>libvirtError c\<close> carries what
  \<^verbatim>\<open>get_error_code()\<close> returns; \<open>AttributeError\<close> is a method call on
  \<^verbatim>\<open>None\<close>; \<open>Exception args\<close> is a plain \<^verbatim>\<open>Exception(...)\<close> with its
  arguments. All of them are subclasses of \<^verbatim>\<open>Exception\<close>.
\<close>

datatype exn =
    libvirtError int
  | AttributeError
  | KeyError string
  | TypeError
  | ValueError
  | ZeroDivisionError
  | Exception "string list"

datatype log_entry = LogDebug string | LogInfo string | LogWarning string | LogError string

text \<open>What the agent sends out: a presence (show, status), a change notification
  (namespace, change) and the firing of a hook.\<close>

datatype effect = Presence string string | Change string string | Hook string

text \<open>The state of a trigger: the two constants of \<^verbatim>\<open>archipelcore.archipelTriggers\<close>.\<close>

datatype trigger_state = ARCHIPEL_TRIGGER_STATE_ON | ARCHIPEL_TRIGGER_STATE_OFF

text \<open>The lock's \<^verbatim>\<open>threading.Timer\<close>: started by \<open>lock\<close>, cancelled by \<open>unlock\<close>.\<close>

datatype timer = TimerStarted | TimerCancelled

text \<open>The hypervisor types \<^verbatim>\<open>is_hypervisor\<close> is asked about.\<close>

datatype hypervisor_type = ARCHIPEL_HYPERVISOR_TYPE_QEMU | ARCHIPEL_HYPERVISOR_TYPE_XEN

text \<open>The namespace of a driver error in an error reply.\<close>

datatype error_ns = ARCHIPEL_NS_LIBVIRT_GENERIC_ERROR

record JID =
  node_part :: string
  domain_part :: string
  resource_part :: string

definition getNode :: "JID \<Rightarrow> string" where
  "getNode j = node_part j"

definition getStripped :: "JID \<Rightarrow> string" where
  "getStripped j = (if node_part j \<noteq> [] then node_part j @ ''@'' @ domain_part j else domain_part j)"

text \<open>The five entries of the list \<^verbatim>\<open>domain.info()\<close> returns.\<close>

record dominfo =
  d_state :: int
  d_maxMem :: int
  d_memory :: int
  d_nrVirtCpu :: int
  d_cpuTime :: int

text \<open>The dictionary \<open>info\<close> returns. \<open>i_autostart\<close> is the integer the source
  turns into a string with \<^verbatim>\<open>str\<close>.\<close>

record vm_info =
  i_state :: int
  i_maxMem :: int
  i_memory :: int
  i_nrVirtCpu :: int
  i_cpuTime :: int
  i_hypervisor :: JID
  i_autostart :: int

text \<open>The calls on the libvirt connection and on the domain handle.\<close>

datatype driver_call =
    DomainCreate
  | DomainID
  | DomainShutdown
  | DomainDestroy
  | DomainReboot int
  | DomainSuspend
  | DomainResume
  | DomainInfo
  | DomainAutostart
  | DomainSetMemory int
  | DomainMaxVcpus
  | DomainSetVcpus int
  | DomainSetAutostart int
  | DomainUndefine
  | DomainXMLDesc int
  | DefineXML node
  | LookupByUUIDString string
  | DomainEventRegisterAny
  | DomainEventDeregisterAny int

text \<open>
  The driver: for each method, what the call returns (\<open>Inr\<close>) or raises (\<open>Inl\<close>), given
  the calls the agent has made before it. \<open>XMLDesc\<close> and \<open>defineXML\<close> exchange the XML
  document as a \<open>node\<close>: the model keeps the tree and leaves its serialisation to the
  library. \<open>defineXML\<close> returns whether the object it hands back is true in a condition.
  \<open>is_hypervisor\<close> is the test of \<^verbatim>\<open>archipelLibvirtEntity\<close> on the connection's
  hypervisor type.
\<close>

record driver =
  dom_create :: "driver_call list \<Rightarrow> exn + int"
  dom_ID :: "driver_call list \<Rightarrow> exn + int"
  dom_shutdown :: "driver_call list \<Rightarrow> exn + int"
  dom_destroy :: "driver_call list \<Rightarrow> exn + int"
  dom_reboot :: "driver_call list \<Rightarrow> exn + unit"
  dom_suspend :: "driver_call list \<Rightarrow> exn + int"
  dom_resume :: "driver_call list \<Rightarrow> exn + int"
  dom_info :: "driver_call list \<Rightarrow> exn + dominfo"
  dom_autostart :: "driver_call list \<Rightarrow> exn + int"
  dom_setMemory :: "driver_call list \<Rightarrow> exn + unit"
  dom_maxVcpus :: "driver_call list \<Rightarrow> exn + int"
  dom_setVcpus :: "driver_call list \<Rightarrow> exn + unit"
  dom_setAutostart :: "driver_call list \<Rightarrow> exn + unit"
  dom_undefine :: "driver_call list \<Rightarrow> exn + int"
  dom_XMLDesc :: "driver_call list \<Rightarrow> exn + node"
  conn_defineXML :: "driver_call list \<Rightarrow> exn + bool"
  conn_lookupByUUIDString :: "driver_call list \<Rightarrow> exn + nat"
  conn_domainEventRegisterAny :: "driver_call list \<Rightarrow> exn + int"
  conn_domainEventDeregisterAny :: "driver_call list \<Rightarrow> exn + unit"
  is_hypervisor :: "driver_call list \<Rightarrow> hypervisor_type list \<Rightarrow> exn + bool"

text \<open>
  The fields of the agent object that the modelled methods read or write.
  \<open>libvirt_connection\<close> and \<open>domain\<close> hold a handle or \<^verbatim>\<open>None\<close>;
  \<open>definition'\<close> is the attribute \<^verbatim>\<open>definition\<close>; \<open>description\<close> is the attribute
  the undefined event assigns; \<open>memory_timers\<close> lists the timers started for
  \<^verbatim>\<open>memoryTimer\<close>, each with its \<^verbatim>\<open>requestedMemory\<close> and \<^verbatim>\<open>retry\<close>.
\<close>

record agent =
  jid :: JID
  password :: string
  name :: string
  uuid :: string
  hypervisor_jid :: JID
  libvirt_connection :: "nat option"
  libvirt_status :: int
  domain :: "nat option"
  definition' :: "node option"
  description :: "string option"
  locked :: bool
  lock_timer :: "timer option"
  is_migrating :: bool
  libvirt_event_callback_id :: "int option"
  triggers :: "string \<Rightarrow> trigger_state option"
  xmppstatus :: string
  xmppstatusshow :: string
  log :: "log_entry list"
  outbox :: "effect list"
  memory_timers :: "(int \<times> int) list"
  driver_calls :: "driver_call list"

subsection \<open>Logging, presence, change notifications, hooks and triggers\<close>

definition log_debug :: "string \<Rightarrow> agent \<Rightarrow> agent" where
  "log_debug m s = s\<lparr>log := log s @ [LogDebug m]\<rparr>"

definition log_info :: "string \<Rightarrow> agent \<Rightarrow> agent" where
  "log_info m s = s\<lparr>log := log s @ [LogInfo m]\<rparr>"

definition log_warning :: "string \<Rightarrow> agent \<Rightarrow> agent" where
  "log_warning m s = s\<lparr>log := log s @ [LogWarning m]\<rparr>"

definition log_error :: "string \<Rightarrow> agent \<Rightarrow> agent" where
  "log_error m s = s\<lparr>log := log s @ [LogError m]\<rparr>"

text \<open>
  Modelled from the spec: \<^verbatim>\<open>change_presence\<close>, \<^verbatim>\<open>push_change\<close> and
  \<^verbatim>\<open>perform_hooks\<close> are methods of the entity classes of \<^verbatim>\<open>archipelcore\<close>.
  The presence is the pair (show, status-text) published on the bus and kept in
  \<open>xmppstatusshow\<close> and \<open>xmppstatus\<close>; a change notification goes out on a channel with
  a label; firing a hook runs its subscribers, whose failures are logged and not raised.
\<close>

definition change_presence :: "string \<Rightarrow> string \<Rightarrow> agent \<Rightarrow> agent" where
  "change_presence presence_show presence_status s =
     s\<lparr>xmppstatusshow := presence_show, xmppstatus := presence_status,
       outbox := outbox s @ [Presence presence_show presence_status]\<rparr>"

definition push_change :: "string \<Rightarrow> string \<Rightarrow> agent \<Rightarrow> agent" where
  "push_change ns change s = s\<lparr>outbox := outbox s @ [Change ns change]\<rparr>"

definition perform_hooks :: "string \<Rightarrow> agent \<Rightarrow> agent" where
  "perform_hooks hookname s = s\<lparr>outbox := outbox s @ [Hook hookname]\<rparr>"

text \<open>
  Modelled from the spec: \<^verbatim>\<open>set_state\<close> of \<^verbatim>\<open>TNArchipelTrigger\<close>, a class of
  \<^verbatim>\<open>archipelcore\<close>, sets the trigger's state (on or off). The function is the whole
  statement \<^verbatim>\<open>self.triggers[n].set_state(st)\<close>, whose dictionary lookup raises
  \<open>KeyError\<close> when no trigger of that name is registered.
\<close>

definition set_state :: "string \<Rightarrow> trigger_state \<Rightarrow> agent \<Rightarrow> agent \<times> (exn + unit)" where
  "set_state n st s =
     (case triggers s n of
        None \<Rightarrow> (s, Inl (KeyError n))
      | Some _ \<Rightarrow> (s\<lparr>triggers := (triggers s)(n \<mapsto> st)\<rparr>, Inr ()))"

subsection \<open>Driver calls\<close>

text \<open>
  A method call on \<^verbatim>\<open>self.domain\<close>: \<open>AttributeError\<close> when the handle is
  \<^verbatim>\<open>None\<close>, otherwise the call is recorded and the driver decides its outcome from
  the calls so far, this one included.
\<close>

definition domain_call ::
  "driver_call \<Rightarrow> (driver_call list \<Rightarrow> exn + 'a) \<Rightarrow> agent \<Rightarrow> agent \<times> (exn + 'a)" where
  "domain_call c outcome s =
     (case domain s of
        None \<Rightarrow> (s, Inl AttributeError)
      | Some _ \<Rightarrow> (s\<lparr>driver_calls := driver_calls s @ [c]\<rparr>, outcome (driver_calls s @ [c])))"

text \<open>The same for a method call on \<^verbatim>\<open>self.libvirt_connection\<close>.\<close>

definition connection_call ::
  "driver_call \<Rightarrow> (driver_call list \<Rightarrow> exn + 'a) \<Rightarrow> agent \<Rightarrow> agent \<times> (exn + 'a)" where
  "connection_call c outcome s =
     (case libvirt_connection s of
        None \<Rightarrow> (s, Inl AttributeError)
      | Some _ \<Rightarrow> (s\<lparr>driver_calls := driver_calls s @ [c]\<rparr>, outcome (driver_calls s @ [c])))"

subsection \<open>The Lock Gate\<close>

definition lock :: "agent \<Rightarrow> agent" where
  "lock s = (log_info ''acquiring lock'' s)\<lparr>locked := True, lock_timer := Some TimerStarted\<rparr>"

definition unlock :: "agent \<Rightarrow> agent" where
  "unlock s =
     (let s1 = (log_info ''releasing lock'' s)\<lparr>locked := False\<rparr> in
      case lock_timer s1 of
        None \<Rightarrow> s1
      | Some _ \<Rightarrow> s1\<lparr>lock_timer := Some TimerCancelled\<rparr>)"

subsection \<open>Domain information and the event ingress\<close>

definition info :: "driver \<Rightarrow> agent \<Rightarrow> agent \<times> (exn + vm_info)" where
  "info drv s =
     (case domain_call DomainInfo (dom_info drv) s of
        (s1, Inl e) \<Rightarrow> (s1, Inl e)
      | (s1, Inr dominfo) \<Rightarrow>
          (case domain_call DomainAutostart (dom_autostart drv) s1 of
             (s2, r) \<Rightarrow>
               let autostart = (case r of Inl _ \<Rightarrow> 0 | Inr a \<Rightarrow> a) in
               (s2, Inr \<lparr>i_state = d_state dominfo, i_maxMem = d_maxMem dominfo,
                         i_memory = d_memory dominfo, i_nrVirtCpu = d_nrVirtCpu dominfo,
                         i_cpuTime = d_cpuTime dominfo, i_hypervisor = hypervisor_jid s2,
                         i_autostart = autostart\<rparr>)))"

definition remove_libvirt_handler :: "driver \<Rightarrow> agent \<Rightarrow> agent \<times> (exn + unit)" where
  "remove_libvirt_handler drv s =
     (case libvirt_event_callback_id s of
        None \<Rightarrow> (s, Inr ())
      | Some cb \<Rightarrow>
          (case connection_call (DomainEventDeregisterAny cb) (conn_domainEventDeregisterAny drv)
                  (log_info ''removing the libvirt event listener for %s'' s) of
             (s1, Inl e) \<Rightarrow> (s1, Inl e)
           | (s1, Inr _) \<Rightarrow> (s1\<lparr>libvirt_event_callback_id := None\<rparr>, Inr ())))"

text \<open>
  The four statements that every branch of \<^verbatim>\<open>on_domain_event\<close> starts with:
  \<^verbatim>\<open>change_presence\<close>, \<^verbatim>\<open>push_change\<close>, the trigger's \<^verbatim>\<open>set_state\<close> and
  \<^verbatim>\<open>perform_hooks\<close>, in this order. A \<open>KeyError\<close> of the trigger lookup leaves the
  hook unfired.
\<close>

definition event_branch ::
  "string \<Rightarrow> string \<Rightarrow> string \<Rightarrow> string \<Rightarrow> trigger_state \<Rightarrow> string \<Rightarrow> agent \<Rightarrow> agent \<times> (exn + unit)" where
  "event_branch presence_show presence_status ns change st hookname s =
     (case set_state ''libvirt_run'' st
             (push_change ns change (change_presence presence_show presence_status s)) of
        (s1, Inl e) \<Rightarrow> (s1, Inl e)
      | (s1, Inr _) \<Rightarrow> (perform_hooks hookname s1, Inr ()))"

text \<open>The body of the \<^verbatim>\<open>try\<close> of \<^verbatim>\<open>on_domain_event\<close>, branch by branch.\<close>

definition on_domain_event_try :: "driver \<Rightarrow> int \<Rightarrow> int \<Rightarrow> agent \<Rightarrow> agent \<times> (exn + unit)" where
  "on_domain_event_try drv event detail s =
     (if event = VIR_DOMAIN_EVENT_STARTED \<and> \<not> detail = VIR_DOMAIN_EVENT_STARTED_MIGRATED then
        event_branch '''' ARCHIPEL_XMPP_SHOW_RUNNING ''virtualmachine:control'' ''created''
          ARCHIPEL_TRIGGER_STATE_ON ''HOOK_VM_CREATE'' s
      else if event = VIR_DOMAIN_EVENT_SUSPENDED \<and> \<not> detail = VIR_DOMAIN_EVENT_SUSPENDED_MIGRATED then
        event_branch ''away'' ARCHIPEL_XMPP_SHOW_PAUSED ''virtualmachine:control'' ''suspended''
          ARCHIPEL_TRIGGER_STATE_OFF ''HOOK_VM_SUSPEND'' s
      else if event = VIR_DOMAIN_EVENT_RESUMED \<and> \<not> detail = VIR_DOMAIN_EVENT_RESUMED_MIGRATED then
        event_branch '''' ARCHIPEL_XMPP_SHOW_RUNNING ''virtualmachine:control'' ''resumed''
          ARCHIPEL_TRIGGER_STATE_OFF ''HOOK_VM_RESUME'' s
      else if event = VIR_DOMAIN_EVENT_STOPPED \<and> \<not> detail = VIR_DOMAIN_EVENT_STOPPED_MIGRATED then
        event_branch ''xa'' ARCHIPEL_XMPP_SHOW_SHUTDOWNED ''virtualmachine:control'' ''shutdowned''
          ARCHIPEL_TRIGGER_STATE_OFF ''HOOK_VM_STOP'' s
      else if event = VIR_DOMAIN_CRASHED then
        event_branch ''xa'' ARCHIPEL_XMPP_SHOW_CRASHED ''virtualmachine:control'' ''crashed''
          ARCHIPEL_TRIGGER_STATE_OFF ''HOOK_VM_CRASH'' s
      else if event = VIR_DOMAIN_SHUTOFF then
        event_branch '''' ARCHIPEL_XMPP_SHOW_SHUTOFF ''virtualmachine:control'' ''shutoff''
          ARCHIPEL_TRIGGER_STATE_OFF ''HOOK_VM_SHUTOFF'' s
      else if event = VIR_DOMAIN_EVENT_UNDEFINED then
        (case event_branch ''xa'' ARCHIPEL_XMPP_SHOW_NOT_DEFINED ''virtualmachine:definition''
                ''undefined'' ARCHIPEL_TRIGGER_STATE_OFF ''HOOK_VM_UNDEFINE'' s of
           (s1, Inl e) \<Rightarrow> (s1, Inl e)
         | (s1, Inr _) \<Rightarrow> remove_libvirt_handler drv (s1\<lparr>domain := None, description := None\<rparr>))
      else if event = VIR_DOMAIN_EVENT_DEFINED then
        event_branch ''xa'' ARCHIPEL_XMPP_SHOW_SHUTDOWNED ''virtualmachine:definition'' ''defined''
          ARCHIPEL_TRIGGER_STATE_OFF ''HOOK_VM_DEFINE'' s
      else (s, Inr ()))"

text \<open>
  The callback the driver invokes on a lifecycle event (and the agent itself, for drivers
  that deliver none). An exception of the \<^verbatim>\<open>try\<close> is logged; the \<^verbatim>\<open>finally\<close>
  refreshes \<open>libvirt_status\<close> (a failure there is passed over) and releases the lock.
\<close>

definition on_domain_event :: "driver \<Rightarrow> int \<Rightarrow> int \<Rightarrow> agent \<Rightarrow> agent" where
  "on_domain_event drv event detail s0 =
     (let s = log_info ''libvirt event received: %d with detail %s'' s0 in
      if is_migrating s then
        log_info ''event received but virtual machine is migrating. ignoring'' s
      else
        let s1 = (case on_domain_event_try drv event detail s of
                    (s', Inl ex) \<Rightarrow> log_error ''%s: Unable to change state %d:%d : %s'' s'
                  | (s', Inr _) \<Rightarrow> s');
            s2 = (if \<not> event = VIR_DOMAIN_EVENT_UNDEFINED \<and> \<not> event = VIR_DOMAIN_EVENT_DEFINED then
                    (case info drv s1 of
                       (s', Inr i) \<Rightarrow> s'\<lparr>libvirt_status := i_state i\<rparr>
                     | (s', Inl _) \<Rightarrow> s')
                  else s1)
        in unlock s2)"

subsection \<open>The XML document of a definition\<close>

text \<open>
  The operations of \<^verbatim>\<open>xmpp.simplexml.Node\<close> that the module uses.
  \<^verbatim>\<open>getTag\<close> returns the first child of that tag or \<^verbatim>\<open>None\<close>;
  \<^verbatim>\<open>delChild\<close> with a tag name removes the child \<^verbatim>\<open>getTag\<close> finds (the
  module calls it only where there is one);
  \<^verbatim>\<open>addChild\<close> appends an empty element; \<^verbatim>\<open>setData\<close> replaces the character
  data by one piece; \<^verbatim>\<open>getData\<close> joins the pieces.
\<close>

definition getTag :: "node \<Rightarrow> string \<Rightarrow> node option" where
  "getTag n nm = find (\<lambda>k. tag k = nm) (kids n)"

definition addChild :: "node \<Rightarrow> string \<Rightarrow> node" where
  "addChild n nm = Node (tag n) (attrs n) (data n) (kids n @ [Node nm [] [] []])"

definition delChild :: "node \<Rightarrow> string \<Rightarrow> node" where
  "delChild n nm =
     (case getTag n nm of
        None \<Rightarrow> n
      | Some k \<Rightarrow> Node (tag n) (attrs n) (data n) (remove1 k (kids n)))"

definition setData :: "node \<Rightarrow> string \<Rightarrow> node" where
  "setData k d = Node (tag k) (attrs k) [d] (kids k)"

definition getData :: "node \<Rightarrow> string" where
  "getData k = concat (data k)"

text \<open>\<^verbatim>\<open>n.getTag(nm).setData(d)\<close>: the child that \<^verbatim>\<open>getTag\<close> finds is changed in
  place, inside its parent.\<close>

fun setData_first :: "string \<Rightarrow> string \<Rightarrow> node list \<Rightarrow> node list" where
  "setData_first nm d [] = []"
| "setData_first nm d (k # ks) =
     (if tag k = nm then setData k d # ks else k # setData_first nm d ks)"

definition getTag_setData :: "node \<Rightarrow> string \<Rightarrow> string \<Rightarrow> node" where
  "getTag_setData n nm d = Node (tag n) (attrs n) (data n) (setData_first nm d (kids n))"

text \<open>
  \<^verbatim>\<open>set_automatic_libvirt_description\<close> changes \<^verbatim>\<open>xmldesc\<close> in place and returns
  its serialisation; the model returns the changed document, which stands for both.
\<close>

definition set_automatic_libvirt_description :: "node \<Rightarrow> agent \<Rightarrow> agent \<times> node" where
  "set_automatic_libvirt_description xmldesc s =
     (let x1 = (if getTag xmldesc ''description'' = None then addChild xmldesc ''description''
                else addChild (delChild xmldesc ''description'') ''description'');
          x2 = getTag_setData x1 ''description'' (getStripped (jid s) @ ''::::'' @ password s);
          x3 = (if getTag x2 ''name'' = None then addChild x2 ''name'' else x2);
          x4 = getTag_setData x3 ''name'' (name s)
      in (log_debug ''generated XML desc is : %s'' s, x4))"

subsection \<open>Presence from the libvirt status, connecting to the domain\<close>

text \<open>
  The \<^verbatim>\<open>except\<close> clause catches \<^verbatim>\<open>libvirtError\<close> only, which only
  \<^verbatim>\<open>domain.info()\<close> raises; any other exception leaves the method.
\<close>

definition set_presence_according_to_libvirt_info :: "driver \<Rightarrow> agent \<Rightarrow> agent \<times> (exn + unit)" where
  "set_presence_according_to_libvirt_info drv s =
     (case domain_call DomainInfo (dom_info drv) s of
        (s1, Inr dominfo) \<Rightarrow>
          (let s2 = log_info ''virtual machine state is %d'' (s1\<lparr>libvirt_status := d_state dominfo\<rparr>) in
           case (if d_state dominfo = VIR_DOMAIN_RUNNING \<or> d_state dominfo = VIR_DOMAIN_BLOCKED then
                   set_state ''libvirt_run'' ARCHIPEL_TRIGGER_STATE_ON
                     (change_presence '''' ARCHIPEL_XMPP_SHOW_RUNNING s2)
                 else if d_state dominfo = VIR_DOMAIN_PAUSED then
                   set_state ''libvirt_run'' ARCHIPEL_TRIGGER_STATE_OFF
                     (change_presence ''away'' ARCHIPEL_XMPP_SHOW_PAUSED s2)
                 else if d_state dominfo = VIR_DOMAIN_SHUTOFF then
                   (change_presence ''xa'' ARCHIPEL_XMPP_SHOW_SHUTDOWNED s2, Inr ())
                 else if d_state dominfo = VIR_DOMAIN_SHUTDOWN then
                   (change_presence '''' ARCHIPEL_XMPP_SHOW_SHUTDOWNING s2, Inr ())
                 else (s2, Inr ())) of
             (s3, Inl e) \<Rightarrow> (s3, Inl e)
           | (s3, Inr _) \<Rightarrow> (perform_hooks ''HOOK_VM_INITIALIZE'' s3, Inr ()))
      | (s1, Inl (libvirtError code)) \<Rightarrow>
          if code = 42 then
            set_state ''libvirt_run'' ARCHIPEL_TRIGGER_STATE_OFF
              (change_presence ''xa'' ARCHIPEL_XMPP_SHOW_NOT_DEFINED
                 ((log_info ''Exception raised %s : %s'' s1)\<lparr>domain := None\<rparr>))
          else (log_error ''Exception raised %s : %s'' s1, Inr ())
      | (s1, Inl e) \<Rightarrow> (s1, Inl e))"

text \<open>The second \<^verbatim>\<open>try\<close> of \<^verbatim>\<open>connect_domain\<close>. The driver's XML description is
  taken as the parsed document.\<close>

definition connect_domain_try :: "driver \<Rightarrow> agent \<Rightarrow> agent \<times> (exn + unit)" where
  "connect_domain_try drv s =
     (case domain_call (DomainXMLDesc 0) (dom_XMLDesc drv) s of
        (s1, Inl e) \<Rightarrow> (s1, Inl e)
      | (s1, Inr xml) \<Rightarrow>
          (let s2 = log_info ''sucessfully connect to domain uuid %s'' (s1\<lparr>definition' := Some xml\<rparr>) in
           case connection_call DomainEventRegisterAny (conn_domainEventRegisterAny drv) s2 of
             (s3, Inl e) \<Rightarrow> (s3, Inl e)
           | (s3, Inr cb) \<Rightarrow>
               set_presence_according_to_libvirt_info drv (s3\<lparr>libvirt_event_callback_id := Some cb\<rparr>)))"

definition connect_domain :: "driver \<Rightarrow> agent \<Rightarrow> agent" where
  "connect_domain drv s =
     (if domain s \<noteq> None then log_info ''already connected to domain. ignoring.'' s
      else
        (case connection_call (LookupByUUIDString (uuid s)) (conn_lookupByUUIDString drv) s of
           (s1, Inl e) \<Rightarrow>
             perform_hooks ''HOOK_VM_INITIALIZE''
               (change_presence ''xa'' ARCHIPEL_XMPP_SHOW_NOT_DEFINED
                  (log_warning ''Can't connect to domain with UUID %s'' s1))
         | (s1, Inr d) \<Rightarrow>
             (case connect_domain_try drv (s1\<lparr>domain := Some d\<rparr>) of
                (s2, Inl ex) \<Rightarrow> log_error ''Exception while connecting to domain : %s'' s2
              | (s2, Inr _) \<Rightarrow> s2)))"

subsection \<open>The libvirt controls\<close>

text \<open>
  The statement that closes most controls:
  \<^verbatim>\<open>if ret == 0 and not self.is_hypervisor(names): self.on_domain_event(...)\<close>.
  \<open>ok\<close> is the first conjunct; \<^verbatim>\<open>is_hypervisor\<close> is asked only when it holds.
\<close>

definition synthesize_event ::
  "driver \<Rightarrow> bool \<Rightarrow> hypervisor_type list \<Rightarrow> int \<Rightarrow> int \<Rightarrow> agent \<Rightarrow> agent \<times> (exn + unit)" where
  "synthesize_event drv ok names event detail s =
     (if ok then
        (case is_hypervisor drv (driver_calls s) names of
           Inl e \<Rightarrow> (s, Inl e)
         | Inr b \<Rightarrow> (if \<not> b then (on_domain_event drv event detail s, Inr ()) else (s, Inr ())))
      else (s, Inr ()))"

text \<open>\<open>create\<close> returns the domain's identifier, which the source turns into a string.\<close>

definition create :: "driver \<Rightarrow> agent \<Rightarrow> agent \<times> (exn + int)" where
  "create drv s =
     (case domain_call DomainCreate (dom_create drv) (lock s) of
        (s1, Inl e) \<Rightarrow> (s1, Inl e)
      | (s1, Inr ret) \<Rightarrow>
          (case synthesize_event drv (ret = 0)
                  [ARCHIPEL_HYPERVISOR_TYPE_QEMU, ARCHIPEL_HYPERVISOR_TYPE_XEN]
                  VIR_DOMAIN_EVENT_STARTED VIR_DOMAIN_EVENT_STARTED_BOOTED
                  (log_info ''virtual machine created'' s1) of
             (s2, Inl e) \<Rightarrow> (s2, Inl e)
           | (s2, Inr _) \<Rightarrow> domain_call DomainID (dom_ID drv) s2))"

text \<open>
  The condition of \<^verbatim>\<open>shutdown\<close>:
  \<^verbatim>\<open>self.info()["state"] == RUNNING or self.info()["state"] == BLOCKED\<close>, which asks
  \<open>info\<close> a second time when the first answer is not running.
\<close>

definition info_running_or_blocked :: "driver \<Rightarrow> agent \<Rightarrow> agent \<times> (exn + bool)" where
  "info_running_or_blocked drv s =
     (case info drv s of
        (s1, Inl e) \<Rightarrow> (s1, Inl e)
      | (s1, Inr i1) \<Rightarrow>
          if i_state i1 = VIR_DOMAIN_RUNNING then (s1, Inr True)
          else (case info drv s1 of
                  (s2, Inl e) \<Rightarrow> (s2, Inl e)
                | (s2, Inr i2) \<Rightarrow> (s2, Inr (i_state i2 = VIR_DOMAIN_BLOCKED))))"

definition shutdown :: "driver \<Rightarrow> agent \<Rightarrow> agent \<times> (exn + unit)" where
  "shutdown drv s =
     (case domain_call DomainShutdown (dom_shutdown drv) (lock s) of
        (s1, Inl e) \<Rightarrow> (s1, Inl e)
      | (s1, Inr ret) \<Rightarrow>
          (case info_running_or_blocked drv s1 of
             (s2, Inl e) \<Rightarrow> (s2, Inl e)
           | (s2, Inr running) \<Rightarrow>
               (case synthesize_event drv (ret = 0)
                       [ARCHIPEL_HYPERVISOR_TYPE_QEMU, ARCHIPEL_HYPERVISOR_TYPE_XEN]
                       VIR_DOMAIN_EVENT_STOPPED VIR_DOMAIN_EVENT_STOPPED_SHUTDOWN
                       (if running then change_presence (xmppstatus s2) ARCHIPEL_XMPP_SHOW_SHUTDOWNING s2
                        else s2) of
                  (s3, Inl e) \<Rightarrow> (s3, Inl e)
                | (s3, Inr _) \<Rightarrow> (log_info ''virtual machine shutdowned'' s3, Inr ()))))"

definition destroy :: "driver \<Rightarrow> agent \<Rightarrow> agent \<times> (exn + unit)" where
  "destroy drv s =
     (case domain_call DomainDestroy (dom_destroy drv) (lock s) of
        (s1, Inl e) \<Rightarrow> (s1, Inl e)
      | (s1, Inr ret) \<Rightarrow>
          (case synthesize_event drv (ret = 0)
                  [ARCHIPEL_HYPERVISOR_TYPE_QEMU, ARCHIPEL_HYPERVISOR_TYPE_XEN]
                  VIR_DOMAIN_EVENT_STOPPED VIR_DOMAIN_EVENT_STOPPED_DESTROYED s1 of
             (s2, Inl e) \<Rightarrow> (s2, Inl e)
           | (s2, Inr _) \<Rightarrow> (log_info ''virtual machine destroyed'' s2, Inr ())))"

definition reboot :: "driver \<Rightarrow> agent \<Rightarrow> agent \<times> (exn + unit)" where
  "reboot drv s =
     (case domain_call (DomainReboot 0) (dom_reboot drv) (lock s) of
        (s1, Inl e) \<Rightarrow> (s1, Inl e)
      | (s1, Inr _) \<Rightarrow> (log_info ''virtual machine rebooted'' s1, Inr ()))"

definition suspend :: "driver \<Rightarrow> agent \<Rightarrow> agent \<times> (exn + unit)" where
  "suspend drv s =
     (case domain_call DomainSuspend (dom_suspend drv) (lock s) of
        (s1, Inl e) \<Rightarrow> (s1, Inl e)
      | (s1, Inr ret) \<Rightarrow>
          synthesize_event drv (ret = 0) [ARCHIPEL_HYPERVISOR_TYPE_QEMU]
            VIR_DOMAIN_EVENT_SUSPENDED VIR_DOMAIN_EVENT_SUSPENDED_PAUSED
            (log_info ''virtual machine suspended'' s1))"

definition resume :: "driver \<Rightarrow> agent \<Rightarrow> agent \<times> (exn + unit)" where
  "resume drv s =
     (case domain_call DomainResume (dom_resume drv) (lock s) of
        (s1, Inl e) \<Rightarrow> (s1, Inl e)
      | (s1, Inr ret) \<Rightarrow>
          synthesize_event drv (ret = 0) [ARCHIPEL_HYPERVISOR_TYPE_QEMU]
            VIR_DOMAIN_EVENT_RESUMED VIR_DOMAIN_EVENT_RESUMED_UNPAUSED
            (log_info ''virtual machine resumed'' s1))"


text \<open>
  One run of \<open>memoryTimer\<close> in its timer thread. \<^verbatim>\<open>requestedMemory / memory\<close> is the
  floor division of Python 2 on integers and raises \<open>ZeroDivisionError\<close> on a zero
  divisor. Starting the next timer is recorded in \<open>memory_timers\<close>, and the timer's firing
  is the recursive call. An exception ends the thread, no handler catches it.
\<close>

function memoryTimer :: "driver \<Rightarrow> int \<Rightarrow> int \<Rightarrow> agent \<Rightarrow> agent \<times> (exn + unit)" where
  "memoryTimer drv requestedMemory retry s =
     (case info drv s of
        (s1, Inl e) \<Rightarrow> (s1, Inl e)
      | (s1, Inr i) \<Rightarrow>
          if i_memory i = 0 then (s1, Inl ZeroDivisionError)
          else if requestedMemory div i_memory i = 0 \<or> requestedMemory div i_memory i = 1 then
            (push_change ''virtualmachine:control'' ''memory'' s1, Inr ())
          else if retry > 0 then
            memoryTimer drv requestedMemory (retry - 1)
              (s1\<lparr>memory_timers := memory_timers s1 @ [(requestedMemory, retry - 1)]\<rparr>)
          else (push_change ''virtualmachine:control'' ''memory'' s1, Inr ()))"
  by pat_completeness auto
termination
  by (relation "measure (\<lambda>(drv, requestedMemory, retry, s). nat retry)") auto

declare memoryTimer.simps [simp del]

definition setVCPUs :: "driver \<Rightarrow> int \<Rightarrow> agent \<Rightarrow> agent \<times> (exn + unit)" where
  "setVCPUs drv value0 s =
     (case domain_call DomainMaxVcpus (dom_maxVcpus drv) (lock s) of
        (s1, Inl e) \<Rightarrow> (s1, Inl e)
      | (s1, Inr m) \<Rightarrow>
          if value0 > m then
            (case domain_call DomainMaxVcpus (dom_maxVcpus drv) s1 of
               (s2, Inl e) \<Rightarrow> (s2, Inl e)
             | (s2, Inr _) \<Rightarrow> (s2, Inl (Exception [''Maximum vCPU is %d''])))
          else
            (case domain_call (DomainSetVcpus value0) (dom_setVcpus drv) s1 of
               (s2, Inl e) \<Rightarrow> (s2, Inl e)
             | (s2, Inr _) \<Rightarrow> (unlock s2, Inr ())))"

definition setAutostart :: "driver \<Rightarrow> int \<Rightarrow> agent \<Rightarrow> agent \<times> (exn + unit)" where
  "setAutostart drv flag s = domain_call (DomainSetAutostart flag) (dom_setAutostart drv) s"

text \<open>\<open>define_domain\<close> is the method \<^verbatim>\<open>define\<close>. It stores and returns the document that
  \<open>set_automatic_libvirt_description\<close> has changed in place.\<close>

definition define_domain :: "driver \<Rightarrow> node \<Rightarrow> agent \<Rightarrow> agent \<times> (exn + node)" where
  "define_domain drv xmldesc s =
     (case set_automatic_libvirt_description xmldesc s of
        (s1, xml) \<Rightarrow>
          (case connection_call (DefineXML xml) (conn_defineXML drv) s1 of
             (s2, Inl e) \<Rightarrow> (s2, Inl e)
           | (s2, Inr ret) \<Rightarrow>
               (let s3 = (if domain s2 = None then connect_domain drv s2 else s2);
                    s4 = s3\<lparr>definition' := Some xml\<rparr>
                in case synthesize_event drv ret
                          [ARCHIPEL_HYPERVISOR_TYPE_QEMU, ARCHIPEL_HYPERVISOR_TYPE_XEN]
                          VIR_DOMAIN_EVENT_DEFINED 0 s4 of
                     (s5, Inl e) \<Rightarrow> (s5, Inl e)
                   | (s5, Inr _) \<Rightarrow> (s5, Inr xml))))"

definition undefine :: "driver \<Rightarrow> agent \<Rightarrow> agent \<times> (exn + unit)" where
  "undefine drv s =
     (if domain s = None then (log_warning ''virtual machine is already undefined'' s, Inr ())
      else
        (case domain_call DomainUndefine (dom_undefine drv) s of
           (s1, Inl e) \<Rightarrow> (s1, Inl e)
         | (s1, Inr ret) \<Rightarrow>
             (case synthesize_event drv (ret = 0)
                     [ARCHIPEL_HYPERVISOR_TYPE_QEMU, ARCHIPEL_HYPERVISOR_TYPE_XEN]
                     VIR_DOMAIN_EVENT_UNDEFINED 0 s1 of
                (s2, Inl e) \<Rightarrow> (s2, Inl e)
              | (s2, Inr _) \<Rightarrow> (log_info ''virtual machine undefined'' s2, Inr ()))))"

subsection \<open>Requests and replies\<close>

text \<open>
  The \<^verbatim>\<open>value\<close> attribute of the request's \<^verbatim>\<open>archipel\<close> element, as
  \<^verbatim>\<open>int(...)\<close> and \<^verbatim>\<open>long(...)\<close> see it: absent (\<^verbatim>\<open>None\<close>, a
  \<open>TypeError\<close>), a text that is no integer (a \<open>ValueError\<close>), or an integer.
\<close>

datatype attr = AttrAbsent | AttrText string | AttrInt int

definition int_of_attr :: "attr \<Rightarrow> exn + int" where
  "int_of_attr a = (case a of AttrAbsent \<Rightarrow> Inl TypeError | AttrText _ \<Rightarrow> Inl ValueError | AttrInt v \<Rightarrow> Inr v)"

text \<open>
  What the handlers read of a request: the \<^verbatim>\<open>value\<close> attribute and the
  \<^verbatim>\<open>domain\<close> child of its \<^verbatim>\<open>archipel\<close> element. The \<^verbatim>\<open>query\<close> and
  \<^verbatim>\<open>archipel\<close> elements are there: the router has read the action from them.
\<close>

record iq =
  archipel_value :: attr
  archipel_domain :: "node option"

datatype payload = DomainElement int

text \<open>
  Modelled from the spec: \<^verbatim>\<open>build_error_iq\<close> of \<^verbatim>\<open>archipelcore.utils\<close> builds
  the typed error reply, which carries the exception, a numeric code and an optional
  driver namespace. \<open>ResultReply\<close> is \<^verbatim>\<open>iq.buildReply("result")\<close> with its payload.
\<close>

datatype reply = ResultReply "payload list" | ErrorReply exn int "error_ns option"

definition build_error_iq :: "exn \<Rightarrow> int \<Rightarrow> error_ns option \<Rightarrow> reply" where
  "build_error_iq ex code ns = ErrorReply ex code ns"

text \<open>The reply that the handlers of the lifecycle actions build when the lock is held.\<close>

definition locked_error :: reply where
  "locked_error =
     build_error_iq (Exception [''Virtual machine is locked, can't do anything''])
       ARCHIPEL_ERROR_CODE_VM_LOCKED None"

subsection \<open>The handlers of the control namespace\<close>

definition iq_create :: "driver \<Rightarrow> iq \<Rightarrow> agent \<Rightarrow> agent \<times> reply" where
  "iq_create drv request s =
     (if locked s then
        (log_error ''Virtual machine is locked, can't do anything'' s, locked_error)
      else
        (case create drv s of
           (s1, Inr domid) \<Rightarrow> (s1, ResultReply [DomainElement domid])
         | (s1, Inl (libvirtError c)) \<Rightarrow>
             (unlock s1, build_error_iq (libvirtError c) c (Some ARCHIPEL_NS_LIBVIRT_GENERIC_ERROR))
         | (s1, Inl ex) \<Rightarrow> (unlock s1, build_error_iq ex ARCHIPEL_ERROR_CODE_VM_CREATE None)))"

definition iq_shutdown :: "driver \<Rightarrow> iq \<Rightarrow> agent \<Rightarrow> agent \<times> reply" where
  "iq_shutdown drv request s =
     (if locked s then
        (log_error ''Virtual machine is locked, can't do anything'' s, locked_error)
      else
        (case shutdown drv s of
           (s1, Inr _) \<Rightarrow> (s1, ResultReply [])
         | (s1, Inl (libvirtError c)) \<Rightarrow>
             (unlock s1, build_error_iq (libvirtError c) c (Some ARCHIPEL_NS_LIBVIRT_GENERIC_ERROR))
         | (s1, Inl ex) \<Rightarrow> (unlock s1, build_error_iq ex ARCHIPEL_ERROR_CODE_VM_SHUTDOWN None)))"

definition iq_destroy :: "driver \<Rightarrow> iq \<Rightarrow> agent \<Rightarrow> agent \<times> reply" where
  "iq_destroy drv request s =
     (if locked s then
        (log_error ''Virtual machine is locked, can't do anything'' s, locked_error)
      else
        (case destroy drv s of
           (s1, Inr _) \<Rightarrow> (s1, ResultReply [])
         | (s1, Inl (libvirtError c)) \<Rightarrow>
             (unlock s1, build_error_iq (libvirtError c) c (Some ARCHIPEL_NS_LIBVIRT_GENERIC_ERROR))
         | (s1, Inl ex) \<Rightarrow> (unlock s1, build_error_iq ex ARCHIPEL_ERROR_CODE_VM_DESTROY None)))"

definition iq_reboot :: "driver \<Rightarrow> iq \<Rightarrow> agent \<Rightarrow> agent \<times> reply" where
  "iq_reboot drv request s =
     (if locked s then
        (log_error ''Virtual machine is locked, can't do anything'' s, locked_error)
      else
        (case reboot drv s of
           (s1, Inr _) \<Rightarrow> (s1, ResultReply [])
         | (s1, Inl (libvirtError c)) \<Rightarrow> (unlock s1, build_error_iq (libvirtError c) c None)
         | (s1, Inl ex) \<Rightarrow> (unlock s1, build_error_iq ex ARCHIPEL_ERROR_CODE_VM_REBOOT None)))"

definition iq_suspend :: "driver \<Rightarrow> iq \<Rightarrow> agent \<Rightarrow> agent \<times> reply" where
  "iq_suspend drv request s =
     (if locked s then
        (log_error ''Virtual machine is locked, can't do anything'' s, locked_error)
      else
        (case suspend drv s of
           (s1, Inr _) \<Rightarrow> (s1, ResultReply [])
         | (s1, Inl (libvirtError c)) \<Rightarrow>
             (unlock s1, build_error_iq (libvirtError c) c (Some ARCHIPEL_NS_LIBVIRT_GENERIC_ERROR))
         | (s1, Inl ex) \<Rightarrow> (unlock s1, build_error_iq ex ARCHIPEL_ERROR_CODE_VM_SUSPEND None)))"

definition iq_resume :: "driver \<Rightarrow> iq \<Rightarrow> agent \<Rightarrow> agent \<times> reply" where
  "iq_resume drv request s =
     (if locked s then
        (log_error ''Virtual machine is locked, can't do anything'' s, locked_error)
      else
        (case resume drv s of
           (s1, Inr _) \<Rightarrow> (s1, ResultReply [])
         | (s1, Inl (libvirtError c)) \<Rightarrow>
             (unlock s1, build_error_iq (libvirtError c) c (Some ARCHIPEL_NS_LIBVIRT_GENERIC_ERROR))
         | (s1, Inl ex) \<Rightarrow> (unlock s1, build_error_iq ex ARCHIPEL_ERROR_CODE_VM_RESUME None)))"

text \<open>The bodies of the \<^verbatim>\<open>try\<close> of the handlers that read the \<^verbatim>\<open>value\<close> attribute.\<close>

definition iq_autostart_try :: "driver \<Rightarrow> iq \<Rightarrow> agent \<Rightarrow> agent \<times> (exn + unit)" where
  "iq_autostart_try drv request s =
     (case int_of_attr (archipel_value request) of
        Inl e \<Rightarrow> (s, Inl e)
      | Inr autostart \<Rightarrow>
          (case setAutostart drv autostart s of
             (s1, Inl e) \<Rightarrow> (s1, Inl e)
           | (s1, Inr _) \<Rightarrow> (log_info ''virtual autostart is set to %d'' s1, Inr ())))"

definition iq_autostart :: "driver \<Rightarrow> iq \<Rightarrow> agent \<Rightarrow> agent \<times> reply" where
  "iq_autostart drv request s =
     (case iq_autostart_try drv request s of
        (s1, Inr _) \<Rightarrow> (s1, ResultReply [])
      | (s1, Inl (libvirtError c)) \<Rightarrow>
          (s1, build_error_iq (libvirtError c) c (Some ARCHIPEL_NS_LIBVIRT_GENERIC_ERROR))
      | (s1, Inl ex) \<Rightarrow> (s1, build_error_iq ex ARCHIPEL_ERROR_CODE_VM_AUTOSTART None))"



definition iq_setvcpus_try :: "driver \<Rightarrow> iq \<Rightarrow> agent \<Rightarrow> agent \<times> (exn + unit)" where
  "iq_setvcpus_try drv request s =
     (case int_of_attr (archipel_value request) of
        Inl e \<Rightarrow> (s, Inl e)
      | Inr cpus \<Rightarrow>
          (case setVCPUs drv cpus s of
             (s1, Inl e) \<Rightarrow> (s1, Inl e)
           | (s1, Inr _) \<Rightarrow>
               (push_change ''virtualmachine:definition'' ''nvcpu''
                  (push_change ''virtualmachine:control'' ''nvcpu''
                     (log_info ''virtual machine number of cpus is set to %d'' s1)), Inr ())))"

definition iq_setvcpus :: "driver \<Rightarrow> iq \<Rightarrow> agent \<Rightarrow> agent \<times> reply" where
  "iq_setvcpus drv request s =
     (case iq_setvcpus_try drv request s of
        (s1, Inr _) \<Rightarrow> (s1, ResultReply [])
      | (s1, Inl (libvirtError c)) \<Rightarrow>
          (s1, build_error_iq (libvirtError c) c (Some ARCHIPEL_NS_LIBVIRT_GENERIC_ERROR))
      | (s1, Inl ex) \<Rightarrow> (s1, build_error_iq ex ARCHIPEL_ERROR_CODE_VM_MEMORY None))"

subsection \<open>The handlers of the definition namespace\<close>

definition iq_define_try :: "driver \<Rightarrow> iq \<Rightarrow> agent \<Rightarrow> agent \<times> (exn + unit)" where
  "iq_define_try drv request s =
     (case archipel_domain request of
        None \<Rightarrow> (s, Inl AttributeError)
      | Some domain_node \<Rightarrow>
          (case getTag domain_node ''uuid'' of
             None \<Rightarrow> (s, Inl AttributeError)
           | Some uuid_node \<Rightarrow>
               if getData uuid_node \<noteq> getNode (jid s) then
                 (s, Inl (Exception [''IncorrectUUID'', ''given UUID %s doesn't match JID %s'']))
               else
                 (case define_domain drv domain_node s of
                    (s1, Inl e) \<Rightarrow> (s1, Inl e)
                  | (s1, Inr _) \<Rightarrow> (log_info ''virtual machine XML is defined'' s1, Inr ()))))"

definition iq_define :: "driver \<Rightarrow> iq \<Rightarrow> agent \<Rightarrow> agent \<times> reply" where
  "iq_define drv request s =
     (case iq_define_try drv request s of
        (s1, Inr _) \<Rightarrow> (s1, ResultReply [])
      | (s1, Inl (libvirtError c)) \<Rightarrow>
          (s1, build_error_iq (libvirtError c) c (Some ARCHIPEL_NS_LIBVIRT_GENERIC_ERROR))
      | (s1, Inl ex) \<Rightarrow> (s1, build_error_iq ex ARCHIPEL_ERROR_CODE_VM_DEFINE None))"

definition iq_undefine :: "driver \<Rightarrow> iq \<Rightarrow> agent \<Rightarrow> agent \<times> reply" where
  "iq_undefine drv request s =
     (case undefine drv s of
        (s1, Inr _) \<Rightarrow> (log_info ''virtual machine is undefined'' s1, ResultReply [])
      | (s1, Inl (libvirtError c)) \<Rightarrow>
          (s1, build_error_iq (libvirtError c) c (Some ARCHIPEL_NS_LIBVIRT_GENERIC_ERROR))
      | (s1, Inl ex) \<Rightarrow> (s1, build_error_iq ex ARCHIPEL_ERROR_CODE_VM_DESTROY None))"

subsection \<open>Observations\<close>

text \<open>The documents handed to \<^verbatim>\<open>defineXML\<close> in a list of driver calls, in order.\<close>

fun defined_documents :: "driver_call list \<Rightarrow> node list" where
  "defined_documents [] = []"
| "defined_documents (DefineXML xml # cs) = xml # defined_documents cs"
| "defined_documents (c # cs) = defined_documents cs"

subsection \<open>Concrete agents, drivers and requests\<close>

text \<open>
  An agent whose bus address is \<^verbatim>\<open>AAAA@example.org\<close>, connected to libvirt and to its
  domain, with the \<open>libvirt_run\<close> trigger registered, and a driver of the QEMU kind that
  reports a running domain and whose calls all succeed.
\<close>

definition example_jid :: JID where
  "example_jid = \<lparr>node_part = ''AAAA'', domain_part = ''example.org'', resource_part = ''''\<rparr>"

definition example_definition :: node where
  "example_definition =
     Node ''domain'' [(''type'', ''kvm'')] []
       [Node ''uuid'' [] [''AAAA''] [], Node ''name'' [] [''old name''] [],
        Node ''description'' [] [''free text''] [], Node ''memory'' [] [''2048''] []]"

definition example_agent :: agent where
  "example_agent =
     \<lparr>jid = example_jid, password = ''secret'', name = ''vm1'', uuid = ''AAAA'',
      hypervisor_jid = \<lparr>node_part = ''hypervisor'', domain_part = ''example.org'', resource_part = ''''\<rparr>,
      libvirt_connection = Some 0, libvirt_status = VIR_DOMAIN_SHUTDOWN, domain = Some 0,
      definition' = Some example_definition, description = None, locked = False,
      lock_timer = None, is_migrating = False, libvirt_event_callback_id = Some 1,
      triggers = [''libvirt_run'' \<mapsto> ARCHIPEL_TRIGGER_STATE_OFF], xmppstatus = ''Off'',
      xmppstatusshow = ''xa'', log = [], outbox = [], memory_timers = [], driver_calls = []\<rparr>"

definition running_info :: dominfo where
  "running_info =
     \<lparr>d_state = VIR_DOMAIN_RUNNING, d_maxMem = 4096, d_memory = 1024, d_nrVirtCpu = 1, d_cpuTime = 0\<rparr>"

definition example_driver :: driver where
  "example_driver =
     \<lparr>dom_create = (\<lambda>h. Inr 0), dom_ID = (\<lambda>h. Inr 7), dom_shutdown = (\<lambda>h. Inr 0),
      dom_destroy = (\<lambda>h. Inr 0), dom_reboot = (\<lambda>h. Inr ()), dom_suspend = (\<lambda>h. Inr 0),
      dom_resume = (\<lambda>h. Inr 0), dom_info = (\<lambda>h. Inr running_info),
      dom_autostart = (\<lambda>h. Inr 0), dom_setMemory = (\<lambda>h. Inr ()),
      dom_maxVcpus = (\<lambda>h. Inr 4), dom_setVcpus = (\<lambda>h. Inr ()),
      dom_setAutostart = (\<lambda>h. Inr ()), dom_undefine = (\<lambda>h. Inr 0),
      dom_XMLDesc = (\<lambda>h. Inr example_definition), conn_defineXML = (\<lambda>h. Inr True),
      conn_lookupByUUIDString = (\<lambda>h. Inr 0), conn_domainEventRegisterAny = (\<lambda>h. Inr 1),
      conn_domainEventDeregisterAny = (\<lambda>h. Inr ()), is_hypervisor = (\<lambda>h names. Inr True)\<rparr>"

text \<open>The same driver, reporting a domain whose current memory is 0.\<close>

definition zero_memory_driver :: driver where
  "zero_memory_driver = example_driver\<lparr>dom_info := (\<lambda>h. Inr (running_info\<lparr>d_memory := 0\<rparr>))\<rparr>"

text \<open>The same driver, reporting a given state, and reporting that there is no domain.\<close>

definition status_driver :: "int \<Rightarrow> driver" where
  "status_driver st = example_driver\<lparr>dom_info := (\<lambda>h. Inr (running_info\<lparr>d_state := st\<rparr>))\<rparr>"

definition no_domain_driver :: driver where
  "no_domain_driver = example_driver\<lparr>dom_info := (\<lambda>h. Inl (libvirtError VIR_ERR_NO_DOMAIN))\<rparr>"

text \<open>The same driver on a connection where \<^verbatim>\<open>is_hypervisor\<close> raises.\<close>

definition failing_hypervisor_driver :: driver where
  "failing_hypervisor_driver = example_driver\<lparr>is_hypervisor := (\<lambda>h names. Inl AttributeError)\<rparr>"

text \<open>A memory request for 2048 and a setvcpus request for 9 virtual CPUs (the example
  driver allows 4).\<close>

definition memory_request :: iq where
  "memory_request = \<lparr>archipel_value = AttrInt 2048, archipel_domain = None\<rparr>"

definition setvcpus_request :: iq where
  "setvcpus_request = \<lparr>archipel_value = AttrInt 9, archipel_domain = None\<rparr>"

definition example_iq :: iq where
  "example_iq = \<lparr>archipel_value = AttrAbsent, archipel_domain = None\<rparr>"

text \<open>A define request that carries \<open>example_definition\<close>, whose uuid is the agent's, and one
  whose document has another uuid.\<close>

definition define_request :: iq where
  "define_request = \<lparr>archipel_value = AttrAbsent, archipel_domain = Some example_definition\<rparr>"

definition foreign_definition :: node where
  "foreign_definition =
     Node ''domain'' [] [] [Node ''uuid'' [] [''BBBB''] [], Node ''name'' [] [''other''] []]"

definition foreign_define_request :: iq where
  "foreign_define_request = \<lparr>archipel_value = AttrAbsent, archipel_domain = Some foreign_definition\<rparr>"

section \<open>Properties\<close>

lemmas error_codes =
  ARCHIPEL_ERROR_CODE_VM_CREATE_def ARCHIPEL_ERROR_CODE_VM_SUSPEND_def
  ARCHIPEL_ERROR_CODE_VM_RESUME_def ARCHIPEL_ERROR_CODE_VM_DESTROY_def
  ARCHIPEL_ERROR_CODE_VM_SHUTDOWN_def ARCHIPEL_ERROR_CODE_VM_REBOOT_def
  ARCHIPEL_ERROR_CODE_VM_DEFINE_def ARCHIPEL_ERROR_CODE_VM_UNDEFINE_def
  ARCHIPEL_ERROR_CODE_VM_LOCKED_def ARCHIPEL_ERROR_CODE_VM_AUTOSTART_def
  ARCHIPEL_ERROR_CODE_VM_MEMORY_def

lemmas xmpp_shows =
  ARCHIPEL_XMPP_SHOW_RUNNING_def ARCHIPEL_XMPP_SHOW_PAUSED_def
  ARCHIPEL_XMPP_SHOW_SHUTDOWNED_def ARCHIPEL_XMPP_SHOW_SHUTDOWNING_def
  ARCHIPEL_XMPP_SHOW_SHUTOFF_def ARCHIPEL_XMPP_SHOW_NOT_DEFINED_def
  ARCHIPEL_XMPP_SHOW_CRASHED_def

lemmas libvirt_constants =
  VIR_DOMAIN_RUNNING_def VIR_DOMAIN_BLOCKED_def VIR_DOMAIN_PAUSED_def
  VIR_DOMAIN_SHUTDOWN_def VIR_DOMAIN_SHUTOFF_def VIR_DOMAIN_CRASHED_def
  VIR_DOMAIN_EVENT_DEFINED_def VIR_DOMAIN_EVENT_UNDEFINED_def
  VIR_DOMAIN_EVENT_STARTED_def VIR_DOMAIN_EVENT_SUSPENDED_def
  VIR_DOMAIN_EVENT_RESUMED_def VIR_DOMAIN_EVENT_STOPPED_def
  VIR_DOMAIN_EVENT_STARTED_BOOTED_def VIR_DOMAIN_EVENT_STARTED_MIGRATED_def
  VIR_DOMAIN_EVENT_SUSPENDED_PAUSED_def VIR_DOMAIN_EVENT_SUSPENDED_MIGRATED_def
  VIR_DOMAIN_EVENT_RESUMED_UNPAUSED_def VIR_DOMAIN_EVENT_RESUMED_MIGRATED_def
  VIR_DOMAIN_EVENT_STOPPED_SHUTDOWN_def VIR_DOMAIN_EVENT_STOPPED_DESTROYED_def
  VIR_DOMAIN_EVENT_STOPPED_MIGRATED_def VIR_ERR_NO_DOMAIN_def

lemmas plumbing =
  log_debug_def log_info_def log_warning_def log_error_def change_presence_def
  push_change_def perform_hooks_def set_state_def domain_call_def connection_call_def
  lock_def unlock_def

lemmas examples =
  example_jid_def example_definition_def example_agent_def running_info_def
  example_driver_def example_iq_def define_request_def foreign_definition_def
  foreign_define_request_def zero_memory_driver_def status_driver_def no_domain_driver_def
  failing_hypervisor_driver_def memory_request_def setvcpus_request_def

subsection \<open>Events during a migration\<close>

text \<open>
  Claim C4. A lifecycle event that reaches \<open>on_domain_event\<close> while \<open>is_migrating\<close> is
  true changes nothing of the agent but its log, which receives the line on the event and
  the line that says it is ignored: no presence, no change notification and no hook goes
  out, the trigger, the lock and the domain handle stay as they are, and the driver is
  not called.
\<close>

theorem on_domain_event_while_migrating:
  assumes "is_migrating s"
  shows "on_domain_event drv event detail s =
           s\<lparr>log := log s @ [LogInfo ''libvirt event received: %d with detail %s'',
                              LogInfo ''event received but virtual machine is migrating. ignoring'']\<rparr>"
  using assms by (simp add: on_domain_event_def log_info_def)

theorem on_domain_event_while_migrating_witness:
  "is_migrating (example_agent\<lparr>is_migrating := True\<rparr>) \<and>
   outbox (on_domain_event example_driver VIR_DOMAIN_EVENT_STARTED VIR_DOMAIN_EVENT_STARTED_BOOTED
             (example_agent\<lparr>is_migrating := True\<rparr>)) = [] \<and>
   xmppstatus (on_domain_event example_driver VIR_DOMAIN_EVENT_STARTED VIR_DOMAIN_EVENT_STARTED_BOOTED
             (example_agent\<lparr>is_migrating := True\<rparr>)) = ''Off'' \<and>
   log (on_domain_event example_driver VIR_DOMAIN_EVENT_STARTED VIR_DOMAIN_EVENT_STARTED_BOOTED
             (example_agent\<lparr>is_migrating := True\<rparr>)) =
     [LogInfo ''libvirt event received: %d with detail %s'',
      LogInfo ''event received but virtual machine is migrating. ignoring'']"
  using on_domain_event_while_migrating
    [of "example_agent\<lparr>is_migrating := True\<rparr>" example_driver
        VIR_DOMAIN_EVENT_STARTED VIR_DOMAIN_EVENT_STARTED_BOOTED]
  by (simp add: example_agent_def)

subsection \<open>Defining the domain\<close>

text \<open>The element that \<open>getTag\<close> finds after \<open>setData_first\<close>, and after a child is appended.\<close>

lemma find_setData_first:
  "find (\<lambda>k. tag k = nm) (setData_first nm d ks) =
     map_option (\<lambda>k. setData k d) (find (\<lambda>k. tag k = nm) ks)"
  by (induction ks) (auto simp: setData_def)

lemma find_setData_first_other:
  "nm' \<noteq> nm \<Longrightarrow> find (\<lambda>k. tag k = nm') (setData_first nm d ks) = find (\<lambda>k. tag k = nm') ks"
  by (induction ks) (auto simp: setData_def)

lemma find_snoc:
  "find P (ks @ [k]) = (case find P ks of Some x \<Rightarrow> Some x | None \<Rightarrow> if P k then Some k else None)"
  by (induction ks) auto

lemma getTag_description:
  "map_option getData (getTag (snd (set_automatic_libvirt_description xmldesc s)) ''description'')
     = Some (getStripped (jid s) @ ''::::'' @ password s)"
  by (auto simp: set_automatic_libvirt_description_def Let_def getTag_def addChild_def delChild_def
      getTag_setData_def find_setData_first find_setData_first_other find_snoc getData_def setData_def
      split: option.splits)

lemma getTag_name:
  "map_option getData (getTag (snd (set_automatic_libvirt_description xmldesc s)) ''name'')
     = Some (name s)"
  by (auto simp: set_automatic_libvirt_description_def Let_def getTag_def addChild_def delChild_def
      getTag_setData_def find_setData_first find_setData_first_other find_snoc getData_def setData_def
      split: option.splits)

lemma defined_documents_append:
  "defined_documents (xs @ ys) = defined_documents xs @ defined_documents ys"
  by (induction xs rule: defined_documents.induct) auto

lemma dd_domain_call:
  assumes "domain_call c f s = (s', r)" and "defined_documents [c] = []"
  shows "defined_documents (driver_calls s') = defined_documents (driver_calls s)"
  using assms by (auto simp: domain_call_def defined_documents_append split: option.splits)

lemma dd_connection_call:
  assumes "connection_call c f s = (s', r)" and "defined_documents [c] = []"
  shows "defined_documents (driver_calls s') = defined_documents (driver_calls s)"
  using assms by (auto simp: connection_call_def defined_documents_append split: option.splits)

lemma driver_calls_plumbing [simp]:
  "driver_calls (log_debug m s) = driver_calls s"
  "driver_calls (log_info m s) = driver_calls s"
  "driver_calls (log_warning m s) = driver_calls s"
  "driver_calls (log_error m s) = driver_calls s"
  "driver_calls (change_presence a b s) = driver_calls s"
  "driver_calls (push_change a b s) = driver_calls s"
  "driver_calls (perform_hooks h s) = driver_calls s"
  "driver_calls (lock s) = driver_calls s"
  "driver_calls (unlock s) = driver_calls s"
  by (simp_all add: plumbing Let_def split: option.splits)

lemma driver_calls_set_state:
  "set_state n st s = (s', r) \<Longrightarrow> driver_calls s' = driver_calls s"
  by (auto simp: set_state_def split: option.splits)

lemma dd_info:
  assumes "info drv s = (s', r)"
  shows "defined_documents (driver_calls s') = defined_documents (driver_calls s)"
  using assms unfolding info_def
  by (auto split: prod.splits sum.splits dest!: dd_domain_call)

lemma dd_remove_libvirt_handler:
  assumes "remove_libvirt_handler drv s = (s', r)"
  shows "defined_documents (driver_calls s') = defined_documents (driver_calls s)"
  using assms unfolding remove_libvirt_handler_def
  by (auto split: prod.splits sum.splits option.splits dest!: dd_connection_call)

lemma driver_calls_event_branch:
  "event_branch a b c d st h s = (s', r) \<Longrightarrow> driver_calls s' = driver_calls s"
  by (auto simp: event_branch_def split: prod.splits sum.splits dest!: driver_calls_set_state)

lemma dd_on_domain_event_try:
  assumes "on_domain_event_try drv event detail s = (s', r)"
  shows "defined_documents (driver_calls s') = defined_documents (driver_calls s)"
  using assms unfolding on_domain_event_try_def
  by (auto split: if_splits prod.splits sum.splits
      dest!: driver_calls_event_branch dd_remove_libvirt_handler)

lemma dd_on_domain_event:
  "defined_documents (driver_calls (on_domain_event drv event detail s)) = defined_documents (driver_calls s)"
  unfolding on_domain_event_def Let_def
  by (auto split: if_splits prod.splits sum.splits
      dest!: dd_on_domain_event_try dd_info)


lemma dd_set_presence:
  assumes "set_presence_according_to_libvirt_info drv s = (s', r)"
  shows "defined_documents (driver_calls s') = defined_documents (driver_calls s)"
  using assms unfolding set_presence_according_to_libvirt_info_def Let_def
  by (auto split: if_splits prod.splits sum.splits exn.splits
      dest!: dd_domain_call driver_calls_set_state)

lemma dd_connect_domain_try:
  assumes "connect_domain_try drv s = (s', r)"
  shows "defined_documents (driver_calls s') = defined_documents (driver_calls s)"
  using assms unfolding connect_domain_try_def Let_def
  by (auto split: prod.splits sum.splits
      dest!: dd_domain_call dd_connection_call dd_set_presence)

lemma dd_connect_domain:
  "defined_documents (driver_calls (connect_domain drv s)) = defined_documents (driver_calls s)"
  unfolding connect_domain_def
  by (auto split: prod.splits sum.splits
      dest!: dd_connection_call dd_connect_domain_try)

lemma dd_synthesize_event:
  assumes "synthesize_event drv ok names event detail s = (s', r)"
  shows "defined_documents (driver_calls s') = defined_documents (driver_calls s)"
  using assms unfolding synthesize_event_def
  by (auto simp: dd_on_domain_event split: if_splits sum.splits)

lemma definition_plumbing [simp]:
  "definition' (log_debug m s) = definition' s"
  "definition' (log_info m s) = definition' s"
  "definition' (log_warning m s) = definition' s"
  "definition' (log_error m s) = definition' s"
  "definition' (change_presence a b s) = definition' s"
  "definition' (push_change a b s) = definition' s"
  "definition' (perform_hooks h s) = definition' s"
  "definition' (lock s) = definition' s"
  "definition' (unlock s) = definition' s"
  by (simp_all add: plumbing Let_def split: option.splits)

lemma definition_set_state:
  "set_state n st s = (s', r) \<Longrightarrow> definition' s' = definition' s"
  by (auto simp: set_state_def split: option.splits)

lemma definition_domain_call:
  "domain_call c f s = (s', r) \<Longrightarrow> definition' s' = definition' s"
  by (auto simp: domain_call_def split: option.splits)

lemma definition_connection_call:
  "connection_call c f s = (s', r) \<Longrightarrow> definition' s' = definition' s"
  by (auto simp: connection_call_def split: option.splits)

lemma definition_info:
  "info drv s = (s', r) \<Longrightarrow> definition' s' = definition' s"
  unfolding info_def
  by (auto split: prod.splits sum.splits dest!: definition_domain_call)

lemma definition_remove_libvirt_handler:
  "remove_libvirt_handler drv s = (s', r) \<Longrightarrow> definition' s' = definition' s"
  unfolding remove_libvirt_handler_def
  by (auto split: prod.splits sum.splits option.splits dest!: definition_connection_call)

lemma definition_event_branch:
  "event_branch a b c d st h s = (s', r) \<Longrightarrow> definition' s' = definition' s"
  by (auto simp: event_branch_def split: prod.splits sum.splits dest!: definition_set_state)

lemma definition_on_domain_event_try:
  "on_domain_event_try drv event detail s = (s', r) \<Longrightarrow> definition' s' = definition' s"
  unfolding on_domain_event_try_def
  by (auto split: if_splits prod.splits sum.splits
      dest!: definition_event_branch definition_remove_libvirt_handler)

lemma definition_on_domain_event:
  "definition' (on_domain_event drv event detail s) = definition' s"
  unfolding on_domain_event_def Let_def
  by (auto split: if_splits prod.splits sum.splits
      dest!: definition_on_domain_event_try definition_info)

lemma definition_synthesize_event:
  "synthesize_event drv ok names event detail s = (s', r) \<Longrightarrow> definition' s' = definition' s"
  unfolding synthesize_event_def
  by (auto simp: definition_on_domain_event split: if_splits sum.splits)

lemma synthesize_event_keeps:
  assumes "synthesize_event drv ok names event detail s = (s', r)"
  shows "defined_documents (driver_calls s') = defined_documents (driver_calls s) \<and>
         definition' s' = definition' s"
  using assms dd_synthesize_event definition_synthesize_event by blast

lemma set_automatic_libvirt_description_agent:
  "fst (set_automatic_libvirt_description xmldesc s) = log_debug ''generated XML desc is : %s'' s"
  by (simp add: set_automatic_libvirt_description_def Let_def)

lemma define_domain_result:
  assumes "define_domain drv xmldesc s = (s', Inr xml)"
  shows "xml = snd (set_automatic_libvirt_description xmldesc s) \<and>
         defined_documents (driver_calls s') = defined_documents (driver_calls s) @ [xml] \<and>
         definition' s' = Some xml"
proof -
  obtain s1 xml0 where sald: "set_automatic_libvirt_description xmldesc s = (s1, xml0)"
    by (cases "set_automatic_libvirt_description xmldesc s")
  have s1: "driver_calls s1 = driver_calls s"
    using set_automatic_libvirt_description_agent [of xmldesc s] sald by simp
  obtain s2 r2 where call: "connection_call (DefineXML xml0) (conn_defineXML drv) s1 = (s2, r2)"
    by (cases "connection_call (DefineXML xml0) (conn_defineXML drv) s1")
  from assms sald call obtain ret where r2: "r2 = Inr ret"
    unfolding define_domain_def by (cases r2) auto
  have s2: "driver_calls s2 = driver_calls s @ [DefineXML xml0]"
    using call r2 s1 by (auto simp: connection_call_def split: option.splits)
  define s4 where "s4 = (if domain s2 = None then connect_domain drv s2 else s2)\<lparr>definition' := Some xml0\<rparr>"
  have s4: "defined_documents (driver_calls s4) = defined_documents (driver_calls s) @ [xml0]"
    "definition' s4 = Some xml0"
    unfolding s4_def using s2 by (simp_all add: dd_connect_domain defined_documents_append)
  obtain s5 r5 where syn: "synthesize_event drv ret
      [ARCHIPEL_HYPERVISOR_TYPE_QEMU, ARCHIPEL_HYPERVISOR_TYPE_XEN] VIR_DOMAIN_EVENT_DEFINED 0 s4 = (s5, r5)"
    by (cases "synthesize_event drv ret
      [ARCHIPEL_HYPERVISOR_TYPE_QEMU, ARCHIPEL_HYPERVISOR_TYPE_XEN] VIR_DOMAIN_EVENT_DEFINED 0 s4")
  have "define_domain drv xmldesc s =
          (case r5 of Inl e \<Rightarrow> (s5, Inl e) | Inr u \<Rightarrow> (s5, Inr xml0))"
    using sald call r2 syn by (simp add: define_domain_def Let_def s4_def split: sum.splits)
  with assms have res: "s' = s5" "xml = xml0"
    by (auto split: sum.splits)
  from synthesize_event_keeps [OF syn] s4 res sald show ?thesis by simp
qed

lemma iq_define_result:
  assumes "iq_define drv request s = (s', ResultReply payload)"
  shows "\<exists>domain_node s1. archipel_domain request = Some domain_node \<and>
           define_domain drv domain_node s = (s1, Inr (snd (set_automatic_libvirt_description domain_node s))) \<and>
           s' = log_info ''virtual machine XML is defined'' s1"
  using assms unfolding iq_define_def iq_define_try_def build_error_iq_def
  by (auto split: prod.splits sum.splits option.splits if_splits exn.splits
      dest: define_domain_result)

text \<open>
  Claim C6. Whenever a define request succeeds (the handler replies with a result), the
  handler has handed exactly one document to the driver's \<^verbatim>\<open>defineXML\<close>, and this
  document, which is also the one the agent stores as its definition, has a
  \<^verbatim>\<open>description\<close> element whose text is the bare bus address, four colons and the
  password, and a \<^verbatim>\<open>name\<close> element whose text is the agent's display name. This holds
  for every document of the caller. (The element is the one \<^verbatim>\<open>getTag\<close> finds, the
  first of that tag.)
\<close>

theorem iq_define_rewrites_description_and_name:
  assumes "iq_define drv request s = (s', ResultReply payload)"
  shows "\<exists>xml. defined_documents (driver_calls s') = defined_documents (driver_calls s) @ [xml] \<and>
           definition' s' = Some xml \<and>
           map_option getData (getTag xml ''description'') =
             Some (getStripped (jid s) @ ''::::'' @ password s) \<and>
           map_option getData (getTag xml ''name'') = Some (name s)"
proof -
  from iq_define_result [OF assms] obtain domain_node s1 where
    d: "define_domain drv domain_node s = (s1, Inr (snd (set_automatic_libvirt_description domain_node s)))"
    and s': "s' = log_info ''virtual machine XML is defined'' s1"
    by blast
  from define_domain_result [OF d] s' show ?thesis
    by (intro exI [of _ "snd (set_automatic_libvirt_description domain_node s)"])
       (simp add: getTag_description getTag_name)
qed


theorem iq_define_rewrites_description_and_name_witness:
  "snd (iq_define example_driver define_request example_agent) = ResultReply [] \<and>
   defined_documents (driver_calls (fst (iq_define example_driver define_request example_agent))) =
     [Node ''domain'' [(''type'', ''kvm'')] []
        [Node ''uuid'' [] [''AAAA''] [], Node ''name'' [] [''vm1''] [],
         Node ''memory'' [] [''2048''] [],
         Node ''description'' [] [''AAAA@example.org::::secret''] []]] \<and>
   (\<exists>xml. defined_documents (driver_calls (fst (iq_define example_driver define_request example_agent))) =
            defined_documents (driver_calls example_agent) @ [xml] \<and>
          definition' (fst (iq_define example_driver define_request example_agent)) = Some xml \<and>
          map_option getData (getTag xml ''description'') = Some ''AAAA@example.org::::secret'' \<and>
          map_option getData (getTag xml ''name'') = Some ''vm1'')"
proof -
  have ev: "snd (iq_define example_driver define_request example_agent) = ResultReply []"
    by code_simp
  have docs: "defined_documents (driver_calls (fst (iq_define example_driver define_request example_agent))) =
     [Node ''domain'' [(''type'', ''kvm'')] []
        [Node ''uuid'' [] [''AAAA''] [], Node ''name'' [] [''vm1''] [],
         Node ''memory'' [] [''2048''] [],
         Node ''description'' [] [''AAAA@example.org::::secret''] []]]"
    by code_simp
  have run: "iq_define example_driver define_request example_agent =
               (fst (iq_define example_driver define_request example_agent), ResultReply [])"
    using ev by (simp add: prod_eq_iff)
  have "getStripped (jid example_agent) @ ''::::'' @ password example_agent = ''AAAA@example.org::::secret''"
    "name example_agent = ''vm1''"
    by (simp_all add: examples getStripped_def)
  with iq_define_rewrites_description_and_name [OF run] ev docs show ?thesis
    by simp
qed

text \<open>
  Claim C7. A define request whose document has a \<^verbatim>\<open>uuid\<close> element that differs from
  the node of the agent's bus address (which is the agent's uuid) is answered with the
  error \<^verbatim>\<open>IncorrectUUID\<close> under the code \<open>ARCHIPEL_ERROR_CODE_VM_DEFINE\<close>, that is
  -1007, and the agent is left as it was: no driver call is made and the stored definition
  is unchanged.
\<close>

theorem iq_define_incorrect_uuid:
  assumes "archipel_domain request = Some domain_node"
    and "getTag domain_node ''uuid'' = Some uuid_node"
    and "getData uuid_node \<noteq> getNode (jid s)"
  shows "iq_define drv request s =
           (s, ErrorReply (Exception [''IncorrectUUID'', ''given UUID %s doesn't match JID %s''])
                 ARCHIPEL_ERROR_CODE_VM_DEFINE None) \<and>
         ARCHIPEL_ERROR_CODE_VM_DEFINE = - 1007"
  using assms
  by (simp add: iq_define_def iq_define_try_def build_error_iq_def ARCHIPEL_ERROR_CODE_VM_DEFINE_def)

theorem iq_define_incorrect_uuid_witness:
  "archipel_domain foreign_define_request = Some foreign_definition \<and>
   getTag foreign_definition ''uuid'' = Some (Node ''uuid'' [] [''BBBB''] []) \<and>
   getData (Node ''uuid'' [] [''BBBB''] []) \<noteq> getNode (jid example_agent) \<and>
   iq_define example_driver foreign_define_request example_agent =
     (example_agent,
      ErrorReply (Exception [''IncorrectUUID'', ''given UUID %s doesn't match JID %s'']) (- 1007) None) \<and>
   driver_calls (fst (iq_define example_driver foreign_define_request example_agent)) = [] \<and>
   definition' (fst (iq_define example_driver foreign_define_request example_agent)) =
     Some example_definition"
proof -
  have h: "archipel_domain foreign_define_request = Some foreign_definition"
    "getTag foreign_definition ''uuid'' = Some (Node ''uuid'' [] [''BBBB''] [])"
    "getData (Node ''uuid'' [] [''BBBB''] []) \<noteq> getNode (jid example_agent)"
    by (simp_all add: examples getTag_def getData_def getNode_def)
  from iq_define_incorrect_uuid [OF h, of example_driver] h show ?thesis
    by (simp add: example_agent_def)
qed

subsection \<open>Polling the memory\<close>

lemma info_ok:
  assumes "domain s \<noteq> None" and "dom_info drv (driver_calls s @ [DomainInfo]) = Inr i"
  shows "\<exists>s1 v. info drv s = (s1, Inr v) \<and> i_memory v = d_memory i \<and> i_state v = d_state i \<and>
           s1 = s\<lparr>driver_calls := driver_calls s @ [DomainInfo, DomainAutostart]\<rparr>"
  using assms by (auto simp: info_def domain_call_def split: option.splits sum.splits)

lemma memoryTimer_ends:
  assumes "domain s \<noteq> None"
    and "\<forall>h. \<exists>i. dom_info drv h = Inr i \<and> d_memory i \<noteq> 0"
  shows "\<exists>s'. memoryTimer drv requestedMemory retry s = (s', Inr ()) \<and>
           outbox s' = outbox s @ [Change ''virtualmachine:control'' ''memory''] \<and>
           count_list (driver_calls s') DomainInfo \<le> count_list (driver_calls s) DomainInfo + 1 + nat retry"
  using assms
proof (induction drv requestedMemory retry s rule: memoryTimer.induct)
  case (1 drv requestedMemory retry s)
  from "1.prems"(2) obtain i where i: "dom_info drv (driver_calls s @ [DomainInfo]) = Inr i" "d_memory i \<noteq> 0"
    by blast
  from info_ok [OF "1.prems"(1) i(1)] obtain s1 v where
    inf: "info drv s = (s1, Inr v)" "i_memory v = d_memory i"
      "s1 = s\<lparr>driver_calls := driver_calls s @ [DomainInfo, DomainAutostart]\<rparr>"
    by blast
  show ?case
  proof (cases "requestedMemory div i_memory v = 0 \<or> requestedMemory div i_memory v = 1 \<or> \<not> retry > 0")
    case True
    then show ?thesis
      using inf i by (subst memoryTimer.simps) (auto simp: push_change_def)
  next
    case False
    let ?s2 = "s1\<lparr>memory_timers := memory_timers s1 @ [(requestedMemory, retry - 1)]\<rparr>"
    have "\<exists>s'. memoryTimer drv requestedMemory (retry - 1) ?s2 = (s', Inr ()) \<and>
           outbox s' = outbox ?s2 @ [Change ''virtualmachine:control'' ''memory''] \<and>
           count_list (driver_calls s') DomainInfo \<le> count_list (driver_calls ?s2) DomainInfo + 1 + nat (retry - 1)"
      using False inf i "1.prems"
      by (intro "1.IH" [of s1 "Inr v" v]) auto
    then obtain s' where s': "memoryTimer drv requestedMemory (retry - 1) ?s2 = (s', Inr ())"
      "outbox s' = outbox ?s2 @ [Change ''virtualmachine:control'' ''memory'']"
      "count_list (driver_calls s') DomainInfo \<le> count_list (driver_calls ?s2) DomainInfo + 1 + nat (retry - 1)"
      by blast
    have "memoryTimer drv requestedMemory retry s = (s', Inr ())"
      using False inf i s'(1) by (subst memoryTimer.simps) simp
    moreover have "outbox s' = outbox s @ [Change ''virtualmachine:control'' ''memory'']"
      using s'(2) inf(3) by simp
    moreover have "count_list (driver_calls s') DomainInfo \<le> count_list (driver_calls s) DomainInfo + 1 + nat retry"
    proof -
      from False have "nat (retry - 1) + 1 = nat retry" by auto
      with s'(3) inf(3) show ?thesis by simp
    qed
    ultimately show ?thesis by blast
  qed
qed

lemma memoryTimer_zero:
  assumes "domain s \<noteq> None"
    and "dom_info drv (driver_calls s @ [DomainInfo]) = Inr i" and "d_memory i = 0"
  shows "\<exists>s'. memoryTimer drv requestedMemory retry s = (s', Inl ZeroDivisionError) \<and> outbox s' = outbox s"
proof -
  from info_ok [OF assms(1,2)] obtain s1 v where
    inf: "info drv s = (s1, Inr v)" "i_memory v = d_memory i"
      "s1 = s\<lparr>driver_calls := driver_calls s @ [DomainInfo, DomainAutostart]\<rparr>"
    by blast
  then show ?thesis using assms(3)
    by (subst memoryTimer.simps) simp
qed

text \<open>
  Claim C10. \<open>memoryTimer\<close> divides by the memory that \<open>info\<close> reports and has no guard
  against zero. It is a total function. With a domain handle and a driver that reports a
  nonzero memory at every poll, the timer started by \<open>setMemory\<close> (\<^verbatim>\<open>retry=3\<close>) ends
  normally after at most 4 runs (each run asks the driver for \<^verbatim>\<open>domain.info()\<close> once)
  and has pushed exactly the change notification \<^verbatim>\<open>memory\<close> on
  \<^verbatim>\<open>virtualmachine:control\<close>. When the driver reports a memory of 0 at the first
  poll, the run ends with \<open>ZeroDivisionError\<close>, which nothing catches, and no
  notification is pushed.
\<close>

theorem memoryTimer_notifies_unless_memory_is_zero:
  assumes "domain s \<noteq> None"
  shows "((\<forall>h. \<exists>i. dom_info drv h = Inr i \<and> d_memory i \<noteq> 0) \<longrightarrow>
            (\<exists>s'. memoryTimer drv requestedMemory 3 s = (s', Inr ()) \<and>
                  outbox s' = outbox s @ [Change ''virtualmachine:control'' ''memory''] \<and>
                  count_list (driver_calls s') DomainInfo \<le> count_list (driver_calls s) DomainInfo + 4)) \<and>
         ((\<exists>i. dom_info drv (driver_calls s @ [DomainInfo]) = Inr i \<and> d_memory i = 0) \<longrightarrow>
            (\<exists>s'. memoryTimer drv requestedMemory retry s = (s', Inl ZeroDivisionError) \<and>
                  outbox s' = outbox s))"
proof (intro conjI impI)
  assume "\<forall>h. \<exists>i. dom_info drv h = Inr i \<and> d_memory i \<noteq> 0"
  from memoryTimer_ends [OF assms this, of requestedMemory 3]
  show "\<exists>s'. memoryTimer drv requestedMemory 3 s = (s', Inr ()) \<and>
          outbox s' = outbox s @ [Change ''virtualmachine:control'' ''memory''] \<and>
          count_list (driver_calls s') DomainInfo \<le> count_list (driver_calls s) DomainInfo + 4"
    by (simp add: add.commute)
next
  assume "\<exists>i. dom_info drv (driver_calls s @ [DomainInfo]) = Inr i \<and> d_memory i = 0"
  then obtain i where "dom_info drv (driver_calls s @ [DomainInfo]) = Inr i" "d_memory i = 0"
    by blast
  from memoryTimer_zero [OF assms this]
  show "\<exists>s'. memoryTimer drv requestedMemory retry s = (s', Inl ZeroDivisionError) \<and>
          outbox s' = outbox s" .
qed

theorem memoryTimer_notifies_unless_memory_is_zero_witness:
  "domain example_agent \<noteq> None \<and>
   (\<forall>h. \<exists>i. dom_info example_driver h = Inr i \<and> d_memory i \<noteq> 0) \<and>
   snd (memoryTimer example_driver 2048 3 example_agent) = Inr () \<and>
   outbox (fst (memoryTimer example_driver 2048 3 example_agent)) =
     [Change ''virtualmachine:control'' ''memory''] \<and>
   count_list (driver_calls (fst (memoryTimer example_driver 2048 3 example_agent))) DomainInfo = 4 \<and>
   (\<exists>i. dom_info zero_memory_driver (driver_calls example_agent @ [DomainInfo]) = Inr i \<and>
        d_memory i = 0) \<and>
   snd (memoryTimer zero_memory_driver 2048 3 example_agent) = Inl ZeroDivisionError \<and>
   outbox (fst (memoryTimer zero_memory_driver 2048 3 example_agent)) = []"
proof -
  have d: "domain example_agent \<noteq> None"
    by (simp add: example_agent_def)
  have nonzero: "\<forall>h. \<exists>i. dom_info example_driver h = Inr i \<and> d_memory i \<noteq> 0"
    by (simp add: example_driver_def running_info_def)
  have zero: "\<exists>i. dom_info zero_memory_driver (driver_calls example_agent @ [DomainInfo]) = Inr i \<and>
                d_memory i = 0"
    by (simp add: zero_memory_driver_def)
  have run: "snd (memoryTimer example_driver 2048 3 example_agent) = Inr ()"
    "outbox (fst (memoryTimer example_driver 2048 3 example_agent)) =
       [Change ''virtualmachine:control'' ''memory'']"
    "count_list (driver_calls (fst (memoryTimer example_driver 2048 3 example_agent))) DomainInfo = 4"
    by code_simp+
  have "outbox example_agent = []"
    by (simp add: example_agent_def)
  with memoryTimer_notifies_unless_memory_is_zero [OF d, of zero_memory_driver 2048 3] zero
  have "snd (memoryTimer zero_memory_driver 2048 3 example_agent) = Inl ZeroDivisionError"
    "outbox (fst (memoryTimer zero_memory_driver 2048 3 example_agent)) = []"
    by auto
  with d nonzero zero run show ?thesis
    by simp
qed

subsection \<open>Presence and the trigger\<close>

lemma outbox_plumbing [simp]:
  "outbox (log_debug m s) = outbox s"
  "outbox (log_info m s) = outbox s"
  "outbox (log_warning m s) = outbox s"
  "outbox (log_error m s) = outbox s"
  "outbox (lock s) = outbox s"
  "outbox (unlock s) = outbox s"
  "triggers (log_debug m s) = triggers s"
  "triggers (log_info m s) = triggers s"
  "triggers (log_warning m s) = triggers s"
  "triggers (log_error m s) = triggers s"
  "triggers (lock s) = triggers s"
  "triggers (unlock s) = triggers s"
  by (simp_all add: plumbing Let_def split: option.splits)

lemma info_frame:
  assumes "info drv s = (s1, r)"
  shows "outbox s1 = outbox s \<and> triggers s1 = triggers s"
  using assms by (auto simp: info_def domain_call_def split: option.splits sum.splits)


lemma event_branch_result:
  assumes "triggers s ''libvirt_run'' \<noteq> None"
  shows "\<exists>s1. event_branch a b c d st h s = (s1, Inr ()) \<and>
           outbox s1 = outbox s @ [Presence a b, Change c d, Hook h] \<and>
           triggers s1 = (triggers s)(''libvirt_run'' \<mapsto> st)"
  using assms
  by (auto simp: event_branch_def set_state_def change_presence_def push_change_def perform_hooks_def)

lemma on_domain_event_frame:
  assumes "\<not> is_migrating s"
    and "on_domain_event_try drv event detail (log_info ''libvirt event received: %d with detail %s'' s) = (s1, r)"
  shows "outbox (on_domain_event drv event detail s) = outbox s1 \<and>
         triggers (on_domain_event drv event detail s) = triggers s1"
  using assms
  by (auto simp: on_domain_event_def Let_def log_info_def log_error_def
      split: sum.splits prod.splits dest!: info_frame)

lemma on_domain_event_publishes:
  assumes "\<not> is_migrating s" and "triggers s ''libvirt_run'' \<noteq> None"
    and "\<And>s0. on_domain_event_try drv event detail s0 = event_branch a b c d st h s0"
  shows "outbox (on_domain_event drv event detail s) = outbox s @ [Presence a b, Change c d, Hook h] \<and>
         triggers (on_domain_event drv event detail s) = (triggers s)(''libvirt_run'' \<mapsto> st)"
proof -
  let ?s0 = "log_info ''libvirt event received: %d with detail %s'' s"
  from assms(2) have "triggers ?s0 ''libvirt_run'' \<noteq> None" by simp
  from event_branch_result [OF this, of a b c d st h] obtain s1 where
    s1: "event_branch a b c d st h ?s0 = (s1, Inr ())"
      "outbox s1 = outbox ?s0 @ [Presence a b, Change c d, Hook h]"
      "triggers s1 = (triggers ?s0)(''libvirt_run'' \<mapsto> st)"
    by blast
  from s1(1) assms(3) have "on_domain_event_try drv event detail ?s0 = (s1, Inr ())" by simp
  from on_domain_event_frame [OF assms(1) this] s1(2,3) show ?thesis by simp
qed







subsection \<open>The lock\<close>

text \<open>What keeps the lock as it is, and what becomes of it in a lifecycle handler that
  succeeds.\<close>

lemma locked_plumbing [simp]:
  "locked (log_debug m s) = locked s"
  "locked (log_info m s) = locked s"
  "locked (log_warning m s) = locked s"
  "locked (log_error m s) = locked s"
  "locked (change_presence a b s) = locked s"
  "locked (push_change a b s) = locked s"
  "locked (perform_hooks h s) = locked s"
  "locked (lock s)"
  by (simp_all add: plumbing)

lemma locked_domain_call:
  "domain_call c f s = (s', r) \<Longrightarrow> locked s' = locked s"
  by (auto simp: domain_call_def split: option.splits)








text \<open>The handlers of the lifecycle actions release the lock when they reply with an error.\<close>

lemma locked_unlock [simp]: "\<not> locked (unlock s)"
  by (simp add: unlock_def Let_def log_info_def split: option.splits)

lemma lifecycle_handlers_unlock_on_error:
  assumes "\<not> locked s"
  shows "iq_create drv request s = (s', ErrorReply ex c ns) \<Longrightarrow> \<not> locked s'"
    and "iq_shutdown drv request s = (s', ErrorReply ex c ns) \<Longrightarrow> \<not> locked s'"
    and "iq_destroy drv request s = (s', ErrorReply ex c ns) \<Longrightarrow> \<not> locked s'"
    and "iq_reboot drv request s = (s', ErrorReply ex c ns) \<Longrightarrow> \<not> locked s'"
    and "iq_suspend drv request s = (s', ErrorReply ex c ns) \<Longrightarrow> \<not> locked s'"
    and "iq_resume drv request s = (s', ErrorReply ex c ns) \<Longrightarrow> \<not> locked s'"
  using assms
  by (auto simp: iq_create_def iq_shutdown_def iq_destroy_def iq_reboot_def iq_suspend_def
      iq_resume_def build_error_iq_def split: prod.splits sum.splits exn.splits)

text \<open>Every error of \<open>setVCPUs\<close>, and so every error reply of \<open>iq_setvcpus\<close> to a request
  with an integer value, leaves the lock held.\<close>

lemma setVCPUs_error_keeps_the_lock:
  "setVCPUs drv v s = (s', Inl e) \<Longrightarrow> locked s'"
  by (auto simp: setVCPUs_def split: prod.splits sum.splits if_splits dest!: locked_domain_call)

lemma iq_setvcpus_error_keeps_the_lock:
  assumes "iq_setvcpus drv request s = (s', ErrorReply ex c ns)"
    and "archipel_value request = AttrInt v"
  shows "locked s'"
  using assms
  by (auto simp: iq_setvcpus_def iq_setvcpus_try_def int_of_attr_def build_error_iq_def
      split: prod.splits sum.splits exn.splits dest: setVCPUs_error_keeps_the_lock)

text \<open>
  Claim C8 at the setvcpus handler. \<open>setVCPUs\<close> acquires the lock and raises when the value
  exceeds what \<^verbatim>\<open>maxVcpus()\<close> returns; neither it nor the \<^verbatim>\<open>except\<close> clauses of
  \<open>iq_setvcpus\<close> release the lock. A request for 9 virtual CPUs, with a driver that allows
  4, is answered with an error and leaves the agent locked.
\<close>

theorem iq_setvcpus_keeps_the_lock:
  "\<not> locked example_agent \<and>
   snd (iq_setvcpus example_driver setvcpus_request example_agent) =
     ErrorReply (Exception [''Maximum vCPU is %d'']) ARCHIPEL_ERROR_CODE_VM_MEMORY None \<and>
   locked (fst (iq_setvcpus example_driver setvcpus_request example_agent)) \<and>
   driver_calls (fst (iq_setvcpus example_driver setvcpus_request example_agent)) =
     [DomainMaxVcpus, DomainMaxVcpus]"
  by code_simp

subsection \<open>Undefining the domain\<close>

text \<open>An error reply of \<open>iq_undefine\<close> carries the driver's code or -1004.\<close>

lemma iq_undefine_error_codes:
  assumes "iq_undefine drv request s = (s', ErrorReply ex c ns)"
  shows "(\<exists>code. ex = libvirtError code \<and> c = code) \<or> c = - 1004"
  using assms
  by (auto simp: iq_undefine_def build_error_iq_def ARCHIPEL_ERROR_CODE_VM_DESTROY_def
      split: prod.splits sum.splits exn.splits)

text \<open>
  Claim C9 at an undefine request that fails with an error that is not the driver's (here
  \<^verbatim>\<open>is_hypervisor\<close> raises \<open>AttributeError\<close>): the reply carries -1004, the code of
  the destroy action, and not \<open>ARCHIPEL_ERROR_CODE_VM_UNDEFINE\<close>, which is -1008.
\<close>

theorem iq_undefine_replies_with_the_destroy_code:
  "snd (iq_undefine failing_hypervisor_driver example_iq example_agent) =
     ErrorReply AttributeError (- 1004) None \<and>
   ARCHIPEL_ERROR_CODE_VM_DESTROY = - 1004 \<and>
   ARCHIPEL_ERROR_CODE_VM_UNDEFINE = - 1008"
  by code_simp

text \<open>
  Claim C5 at an undefined event on an agent that holds a definition: the domain handle is
  dropped and the lifecycle callback is deregistered, but the event assigns the attribute
  \<^verbatim>\<open>description\<close> and the stored definition stays.
\<close>

theorem undefined_event_keeps_the_definition:
  "domain (on_domain_event example_driver VIR_DOMAIN_EVENT_UNDEFINED 0 example_agent) = None \<and>
   libvirt_event_callback_id (on_domain_event example_driver VIR_DOMAIN_EVENT_UNDEFINED 0 example_agent) = None \<and>
   driver_calls (on_domain_event example_driver VIR_DOMAIN_EVENT_UNDEFINED 0 example_agent) =
     [DomainEventDeregisterAny 1] \<and>
   description (on_domain_event example_driver VIR_DOMAIN_EVENT_UNDEFINED 0 example_agent) = None \<and>
   definition' (on_domain_event example_driver VIR_DOMAIN_EVENT_UNDEFINED 0 example_agent) =
     Some example_definition"
  by code_simp

text \<open>After a resumed event that is processed, the trigger is off.\<close>

lemma resumed_event_trigger:
  assumes "\<not> is_migrating s" and "triggers s ''libvirt_run'' \<noteq> None"
    and "detail \<noteq> VIR_DOMAIN_EVENT_RESUMED_MIGRATED"
  shows "triggers (on_domain_event drv VIR_DOMAIN_EVENT_RESUMED detail s) ''libvirt_run'' =
           Some ARCHIPEL_TRIGGER_STATE_OFF"
proof -
  from assms(3) have "\<And>s0. on_domain_event_try drv VIR_DOMAIN_EVENT_RESUMED detail s0 =
      event_branch '''' ''Running'' ''virtualmachine:control'' ''resumed''
        ARCHIPEL_TRIGGER_STATE_OFF ''HOOK_VM_RESUME'' s0"
    by (simp add: on_domain_event_try_def libvirt_constants xmpp_shows)
  from on_domain_event_publishes [OF assms(1,2) this] show ?thesis by simp
qed

text \<open>
  Claim C3 at a resumed event on an agent that is not migrating and whose trigger is on:
  the agent publishes the presence \<^verbatim>\<open>Running\<close> and the refreshed status is running, but
  the trigger is switched off.
\<close>

theorem resumed_event_switches_the_trigger_off:
  "triggers (on_domain_event example_driver VIR_DOMAIN_EVENT_RESUMED VIR_DOMAIN_EVENT_RESUMED_UNPAUSED
        (example_agent\<lparr>triggers := [''libvirt_run'' \<mapsto> ARCHIPEL_TRIGGER_STATE_ON]\<rparr>)) ''libvirt_run'' =
     Some ARCHIPEL_TRIGGER_STATE_OFF \<and>
   libvirt_status (on_domain_event example_driver VIR_DOMAIN_EVENT_RESUMED VIR_DOMAIN_EVENT_RESUMED_UNPAUSED
        (example_agent\<lparr>triggers := [''libvirt_run'' \<mapsto> ARCHIPEL_TRIGGER_STATE_ON]\<rparr>)) = VIR_DOMAIN_RUNNING \<and>
   \<not> is_migrating (on_domain_event example_driver VIR_DOMAIN_EVENT_RESUMED VIR_DOMAIN_EVENT_RESUMED_UNPAUSED
        (example_agent\<lparr>triggers := [''libvirt_run'' \<mapsto> ARCHIPEL_TRIGGER_STATE_ON]\<rparr>)) \<and>
   outbox (on_domain_event example_driver VIR_DOMAIN_EVENT_RESUMED VIR_DOMAIN_EVENT_RESUMED_UNPAUSED
        (example_agent\<lparr>triggers := [''libvirt_run'' \<mapsto> ARCHIPEL_TRIGGER_STATE_ON]\<rparr>)) =
     [Presence '''' ''Running'', Change ''virtualmachine:control'' ''resumed'', Hook ''HOOK_VM_RESUME'']"
  by code_simp

end
